theory Spec2Isabelle
  imports Complex_Main
begin

section \<open>Numbers and loops\<close>

text \<open>
  The calculator is TypeScript. In the deterministic calculation every \<open>number\<close> is
  modelled as a \<^typ>\<open>real\<close>, so its arithmetic is exact and always finite. The Monte Carlo
  simulation is modelled on JavaScript numbers with their special values (section
  \<open>JavaScript numbers\<close>), because the values it is handed and the values it sorts can be
  \<open>NaN\<close> or infinite. Loop counters, year counts and array indices, which the code only ever
  fills with non-negative integers, are \<^typ>\<open>nat\<close>; ages and calendar years are
  \<^typ>\<open>int\<close>.

  \<open>Math.pow\<close> is only called with an integer exponent (a year index, or
  \<open>-retirementDuration\<close>).
\<close>

definition Math_pow :: "real \<Rightarrow> int \<Rightarrow> real" where
  "Math_pow x n = (if 0 \<le> n then x ^ nat n else 1 / x ^ nat (- n))"

definition Math_max :: "real \<Rightarrow> real \<Rightarrow> real" where
  "Math_max a b = (if a < b then b else a)"

definition Math_floor :: "real \<Rightarrow> int" where
  "Math_floor x = \<lfloor>x\<rfloor>"

text \<open>
  Every loop of the calculator but the solver's is a counted loop
  \<open>for (let i = a; i < n; i++) body\<close>. \<open>for_loop a n body s\<close> runs it from the state \<open>s\<close> of
  the variables the body assigns; a loop \<open>for (i = a; i <= n; i++)\<close> is
  \<open>for_loop a (Suc n)\<close>.
\<close>

function for_loop :: "nat \<Rightarrow> nat \<Rightarrow> (nat \<Rightarrow> 's \<Rightarrow> 's) \<Rightarrow> 's \<Rightarrow> 's" where
  "for_loop i n body s = (if i < n then for_loop (Suc i) n body (body i s) else s)"
  by pat_completeness auto
termination
  by (relation "measure (\<lambda>(i, n, body, s). n - i)") auto

declare for_loop.simps [simp del]

section \<open>JavaScript numbers\<close>

text \<open>
  A JavaScript number is a finite value, \<open>Infinity\<close>, \<open>-Infinity\<close> or \<open>NaN\<close>. The operations
  below follow IEEE 754 on the special values and are exact on the finite ones: rounding and
  overflow of finite results are not modelled, and the two zeros are not told apart (the
  simulation never divides by a variable). A comparison with \<open>NaN\<close> is false.
\<close>

datatype number = Num real | PosInfinity | NegInfinity | NaN

instantiation number :: "{plus, minus, times, ord}"
begin

fun plus_number :: "number \<Rightarrow> number \<Rightarrow> number" where
  "plus_number NaN y = NaN"
| "plus_number x NaN = NaN"
| "plus_number (Num a) (Num b) = Num (a + b)"
| "plus_number PosInfinity NegInfinity = NaN"
| "plus_number NegInfinity PosInfinity = NaN"
| "plus_number PosInfinity y = PosInfinity"
| "plus_number x PosInfinity = PosInfinity"
| "plus_number NegInfinity y = NegInfinity"
| "plus_number x NegInfinity = NegInfinity"

fun minus_number :: "number \<Rightarrow> number \<Rightarrow> number" where
  "minus_number NaN y = NaN"
| "minus_number x NaN = NaN"
| "minus_number (Num a) (Num b) = Num (a - b)"
| "minus_number PosInfinity PosInfinity = NaN"
| "minus_number NegInfinity NegInfinity = NaN"
| "minus_number PosInfinity y = PosInfinity"
| "minus_number x PosInfinity = NegInfinity"
| "minus_number NegInfinity y = NegInfinity"
| "minus_number x NegInfinity = PosInfinity"

fun times_number :: "number \<Rightarrow> number \<Rightarrow> number" where
  "times_number NaN y = NaN"
| "times_number x NaN = NaN"
| "times_number (Num a) (Num b) = Num (a * b)"
| "times_number (Num a) PosInfinity =
     (if a = 0 then NaN else if 0 < a then PosInfinity else NegInfinity)"
| "times_number (Num a) NegInfinity =
     (if a = 0 then NaN else if 0 < a then NegInfinity else PosInfinity)"
| "times_number PosInfinity (Num b) =
     (if b = 0 then NaN else if 0 < b then PosInfinity else NegInfinity)"
| "times_number NegInfinity (Num b) =
     (if b = 0 then NaN else if 0 < b then NegInfinity else PosInfinity)"
| "times_number PosInfinity PosInfinity = PosInfinity"
| "times_number PosInfinity NegInfinity = NegInfinity"
| "times_number NegInfinity PosInfinity = NegInfinity"
| "times_number NegInfinity NegInfinity = PosInfinity"

fun less_eq_number :: "number \<Rightarrow> number \<Rightarrow> bool" where
  "less_eq_number NaN y = False"
| "less_eq_number x NaN = False"
| "less_eq_number (Num a) (Num b) = (a \<le> b)"
| "less_eq_number NegInfinity y = True"
| "less_eq_number x PosInfinity = True"
| "less_eq_number x NegInfinity = False"
| "less_eq_number PosInfinity y = False"

fun less_number :: "number \<Rightarrow> number \<Rightarrow> bool" where
  "less_number NaN y = False"
| "less_number x NaN = False"
| "less_number (Num a) (Num b) = (a < b)"
| "less_number PosInfinity y = False"
| "less_number x NegInfinity = False"
| "less_number NegInfinity y = True"
| "less_number x PosInfinity = True"

instance ..

end

text \<open>\<open>x / c\<close> for a positive literal \<open>c\<close>: the simulation only divides by 100.\<close>

definition divide_by :: "number \<Rightarrow> real \<Rightarrow> number" where
  "divide_by x c =
     (case x of
        Num a \<Rightarrow> Num (a / c)
      | PosInfinity \<Rightarrow> PosInfinity
      | NegInfinity \<Rightarrow> NegInfinity
      | NaN \<Rightarrow> NaN)"

text \<open>
  \<open>Math.pow(x, k)\<close> for an exponent \<open>k\<close> that is a non-negative integer; \<open>Math.pow(x, 0)\<close> is
  1 for every \<open>x\<close>, \<open>NaN\<close> included.
\<close>

fun Math_pow_number :: "number \<Rightarrow> nat \<Rightarrow> number" where
  "Math_pow_number x 0 = Num 1"
| "Math_pow_number (Num a) (Suc k) = Num (a ^ Suc k)"
| "Math_pow_number PosInfinity (Suc k) = PosInfinity"
| "Math_pow_number NegInfinity (Suc k) = (if even (Suc k) then PosInfinity else NegInfinity)"
| "Math_pow_number NaN (Suc k) = NaN"

fun Math_sqrt :: "number \<Rightarrow> number" where
  "Math_sqrt (Num a) = (if a < 0 then NaN else Num (sqrt a))"
| "Math_sqrt PosInfinity = PosInfinity"
| "Math_sqrt NegInfinity = NaN"
| "Math_sqrt NaN = NaN"

fun Math_log :: "number \<Rightarrow> number" where
  "Math_log (Num a) = (if a < 0 then NaN else if a = 0 then NegInfinity else Num (ln a))"
| "Math_log PosInfinity = PosInfinity"
| "Math_log NegInfinity = NaN"
| "Math_log NaN = NaN"

fun Math_cos :: "number \<Rightarrow> number" where
  "Math_cos (Num a) = Num (cos a)"
| "Math_cos x = NaN"

text \<open>
  \<open>Array.prototype.sort(comparefn)\<close>. A result of \<open>comparefn\<close> that is \<open>NaN\<close> counts as 0, so
  an element moves behind another only where \<open>comparefn\<close> is positive. The model is the
  stable insertion sort. Where \<open>comparefn\<close> is a consistent comparison (for \<open>a - b\<close>: where no
  element is \<open>NaN\<close>) every sorting algorithm returns the same array up to equal elements;
  where it is not, the order is left to the implementation, and the model's is one of the
  possible ones.
\<close>

fun sort_insert :: "(number \<Rightarrow> number \<Rightarrow> number) \<Rightarrow> number \<Rightarrow> number list \<Rightarrow> number list" where
  "sort_insert comparefn x [] = [x]"
| "sort_insert comparefn x (y # ys) =
     (if Num 0 < comparefn x y then y # sort_insert comparefn x ys else x # y # ys)"

definition Array_sort :: "(number \<Rightarrow> number \<Rightarrow> number) \<Rightarrow> number list \<Rightarrow> number list" where
  "Array_sort comparefn xs = foldr (sort_insert comparefn) xs []"

section \<open>Data model\<close>

record InvestmentVehicle =
  name :: string
  returnRate :: real
  riskLevel :: string
  volatility :: "real option"

record MonteCarloProjection =
  year :: int
  age :: int
  p10 :: number
  p25 :: number
  p50 :: number
  p75 :: number
  p90 :: number
  target :: number
  deterministic :: number

record SequenceScenario =
  name :: string
  description :: string
  preRetirement :: "real list"
  postRetirement :: "real list"
  finalValue :: real
  survivalYears :: nat
  color :: string
  preRetirementReturnRate :: real
  postRetirementReturnRate :: real

record SequenceProjection =
  year :: int
  age :: int
  isRetirementYear :: bool
  isCriticalZone :: bool
  bestCase :: real
  worstCase :: real
  earlyBear :: real
  average :: real

record PostRetirementProjection =
  year :: int
  age :: int
  withdrawal :: real
  portfolioValue :: real

record YearlyProjection =
  year :: int
  age :: int
  annualContribution :: real
  cumulativeContribution :: real
  investmentReturns :: real
  totalValue :: real

record CalculationResults =
  yearsUntilRetirement :: nat
  targetRetirementCorpus :: real
  monthlyInvestmentNeeded :: real
  annualInvestmentNeeded :: real
  totalContributions :: real
  totalReturns :: real
  yearlyProjections :: "YearlyProjection list"
  postRetirementProjections :: "PostRetirementProjection list"
  replacementRatio :: real
  annualRetirementIncome :: real
  retirementDuration :: nat
  safeWithdrawalRate :: real
  isUnrealistic :: bool
  incomePercentageNeeded :: real
  monteCarloProjections :: "MonteCarloProjection list option"
  postRetirementVehicle :: InvestmentVehicle
  sequenceScenarios :: "SequenceScenario list option"
  sequenceProjections :: "SequenceProjection list option"

definition investmentVehicles :: "InvestmentVehicle list" where
  "investmentVehicles =
     [\<lparr>InvestmentVehicle.name = ''Very Low Risk'', returnRate = 4,
         riskLevel = ''Very Low Risk'', volatility = Some 0\<rparr>,
      \<lparr>InvestmentVehicle.name = ''Low Risk'', returnRate = 7.5,
         riskLevel = ''Low Risk'', volatility = Some 0\<rparr>,
      \<lparr>InvestmentVehicle.name = ''Moderate Risk'', returnRate = 12,
         riskLevel = ''Moderate Risk'', volatility = Some 15\<rparr>,
      \<lparr>InvestmentVehicle.name = ''High Risk'', returnRate = 18,
         riskLevel = ''High Risk'', volatility = Some 25\<rparr>,
      \<lparr>InvestmentVehicle.name = ''Very High Risk'', returnRate = 22,
         riskLevel = ''Very High Risk'', volatility = Some 35\<rparr>]"

section \<open>Random variates\<close>

text \<open>
  \<open>Math.random()\<close> reads a global generator. The model takes the sequence \<open>rng\<close> of the
  values the generator is going to return, which are finite, and threads the position of
  the next one. A draw of 0 makes \<open>Math.log\<close> return \<open>-Infinity\<close> and the variate infinite.
\<close>

definition Math_random :: "(nat \<Rightarrow> real) \<Rightarrow> nat \<Rightarrow> real \<times> nat" where
  "Math_random rng pos = (rng pos, Suc pos)"

definition generateNormalRandom ::
  "(nat \<Rightarrow> real) \<Rightarrow> number \<Rightarrow> number \<Rightarrow> nat \<Rightarrow> number \<times> nat" where
  "generateNormalRandom rng mean stdDev pos =
     (let (u1, pos) = Math_random rng pos;
          (u2, pos) = Math_random rng pos;
          z0 = Math_sqrt (Num (- 2) * Math_log (Num u1)) * Math_cos (Num 2 * Num pi * Num u2)
      in (mean + z0 * stdDev, pos))"

section \<open>Sequence-of-returns scenarios\<close>

definition generateSequence :: "string \<Rightarrow> nat \<Rightarrow> real \<Rightarrow> real \<Rightarrow> real list" where
  "generateSequence type years baseReturn vol =
     (if type = ''bestCase'' then
        for_loop 0 years
          (\<lambda>i returns. let progress = real i / real years
                       in returns @ [(baseReturn + vol * (progress - 0.5) * 2) / 100]) []
      else if type = ''worstCase'' then
        for_loop 0 years
          (\<lambda>i returns. let progress = real i / real years
                       in returns @ [(baseReturn - vol * (progress - 0.5) * 2) / 100]) []
      else if type = ''earlyBear'' then
        for_loop 0 years
          (\<lambda>i returns. if real i < real years * 0.3
                       then returns @ [(baseReturn - vol * 0.8) / 100]
                       else returns @ [(baseReturn + vol * 0.4) / 100]) []
      else
        for_loop 0 years (\<lambda>i returns. returns @ [baseReturn / 100]) [])"

text \<open>The arithmetic mean of a return sequence.\<close>

definition arithmeticMean :: "real list \<Rightarrow> real" where
  "arithmeticMean xs = sum_list xs / real (length xs)"

text \<open>
  \<open>simulateFullCycle\<close> is a closure of \<open>calculateSequenceRisk\<close>: the parameters it captures
  come first. It reads \<open>preReturns[year]\<close> for \<open>year < yearsUntilRetirement\<close> and
  \<open>postReturns[year]\<close> for \<open>year < retirementDuration\<close>; its callers pass arrays of
  exactly these lengths.
\<close>

record FullCycle =
  finalValue :: real
  survivalYears :: nat
  values' :: "real list"

definition accumulationPhase ::
  "nat \<Rightarrow> real \<Rightarrow> real \<Rightarrow> real list \<Rightarrow> real \<times> real list" where
  "\<And>yearsUntilRetirement annualInvestment salaryGrowthRate preReturns.
   accumulationPhase yearsUntilRetirement annualInvestment salaryGrowthRate preReturns =
     for_loop 0 yearsUntilRetirement
       (\<lambda>year (portfolioValue, allValues).
          let yearContribution = annualInvestment * Math_pow (1 + salaryGrowthRate) (int year);
              portfolioValue = (portfolioValue + yearContribution) * (1 + preReturns ! year)
          in (portfolioValue, allValues @ [portfolioValue]))
       (0, [0])"

definition retirementPhase ::
  "nat \<Rightarrow> real \<Rightarrow> real \<Rightarrow> real list \<Rightarrow> real \<times> real list \<Rightarrow> real \<times> nat \<times> real list" where
  "\<And>retirementDuration annualRetirementIncome inflationRate postReturns start.
   retirementPhase retirementDuration annualRetirementIncome inflationRate postReturns start =
     for_loop 0 retirementDuration
       (\<lambda>year (portfolioValue, survivalYears, allValues).
          let withdrawal = annualRetirementIncome * Math_pow (1 + inflationRate) (int year);
              portfolioValue = (portfolioValue - withdrawal) * (1 + postReturns ! year);
              allValues = allValues @ [Math_max 0 portfolioValue]
          in if portfolioValue \<le> 0 \<and> survivalYears = retirementDuration
             then (portfolioValue, year, allValues)
             else (portfolioValue, survivalYears, allValues))
       (fst start, retirementDuration, snd start)"

definition simulateFullCycle ::
  "nat \<Rightarrow> real \<Rightarrow> real \<Rightarrow> nat \<Rightarrow> real \<Rightarrow> real \<Rightarrow> real list \<Rightarrow> real list \<Rightarrow> FullCycle" where
  "\<And>yearsUntilRetirement annualInvestment salaryGrowthRate retirementDuration
      annualRetirementIncome inflationRate preReturns postReturns.
   simulateFullCycle yearsUntilRetirement annualInvestment salaryGrowthRate
       retirementDuration annualRetirementIncome inflationRate preReturns postReturns =
     (let (portfolioValue, survivalYears, allValues) =
            retirementPhase retirementDuration annualRetirementIncome inflationRate postReturns
              (accumulationPhase yearsUntilRetirement annualInvestment salaryGrowthRate preReturns)
      in \<lparr>FullCycle.finalValue = Math_max 0 portfolioValue,
          survivalYears = survivalYears,
          values' = allValues\<rparr>)"

text \<open>\<open>xs[i] || 0\<close>: a missing element, like a zero one, reads as 0.\<close>

definition or_zero :: "real list \<Rightarrow> nat \<Rightarrow> real" where
  "or_zero xs i = (if i < length xs then xs ! i else 0)"

definition calculateSequenceRisk ::
  "int \<Rightarrow> nat \<Rightarrow> real \<Rightarrow> real \<Rightarrow> real \<Rightarrow> nat \<Rightarrow> real \<Rightarrow> real \<Rightarrow> real \<Rightarrow> real \<Rightarrow> int
     \<Rightarrow> SequenceScenario list \<times> SequenceProjection list" where
  "\<And>fullYear yearsUntilRetirement annualInvestment preRetirementReturn volatility
      retirementDuration annualRetirementIncome inflationRate salaryGrowthRate
      postRetirementReturn currentAge.
   calculateSequenceRisk fullYear yearsUntilRetirement annualInvestment preRetirementReturn
       volatility retirementDuration annualRetirementIncome inflationRate salaryGrowthRate
       postRetirementReturn currentAge =
     (let simulate = simulateFullCycle yearsUntilRetirement annualInvestment salaryGrowthRate
                       retirementDuration annualRetirementIncome inflationRate;
          preRetBestCase = generateSequence ''bestCase'' yearsUntilRetirement preRetirementReturn volatility;
          preRetWorstCase = generateSequence ''worstCase'' yearsUntilRetirement preRetirementReturn volatility;
          preRetEarlyBear = generateSequence ''earlyBear'' yearsUntilRetirement preRetirementReturn volatility;
          preRetAverage = generateSequence ''average'' yearsUntilRetirement preRetirementReturn volatility;
          postRetSteady = generateSequence ''average'' retirementDuration postRetirementReturn 0;
          postRetBestCase = postRetSteady;
          postRetWorstCase = postRetSteady;
          postRetEarlyBear = postRetSteady;
          postRetAverage = postRetSteady;
          bestCaseResult = simulate preRetBestCase postRetBestCase;
          worstCaseResult = simulate preRetWorstCase postRetWorstCase;
          earlyBearResult = simulate preRetEarlyBear postRetEarlyBear;
          averageResult = simulate preRetAverage postRetAverage;
          scenarios =
            [\<lparr>SequenceScenario.name = ''Bull Market Into Retirement'',
               description = ''Strong returns leading up to retirement, steady conservative returns after'',
               preRetirement = preRetBestCase, postRetirement = postRetBestCase,
               finalValue = FullCycle.finalValue bestCaseResult,
               survivalYears = FullCycle.survivalYears bestCaseResult,
               color = ''#22c55e'',
               preRetirementReturnRate = preRetirementReturn,
               postRetirementReturnRate = postRetirementReturn\<rparr>,
             \<lparr>SequenceScenario.name = ''Bear Market Into Retirement'',
               description = ''Poor returns before retirement, steady conservative returns after'',
               preRetirement = preRetWorstCase, postRetirement = postRetWorstCase,
               finalValue = FullCycle.finalValue worstCaseResult,
               survivalYears = FullCycle.survivalYears worstCaseResult,
               color = ''#ef4444'',
               preRetirementReturnRate = preRetirementReturn,
               postRetirementReturnRate = postRetirementReturn\<rparr>,
             \<lparr>SequenceScenario.name = ''Early Bear, Late Bull'',
               description = ''Poor returns early in career, strong returns later'',
               preRetirement = preRetEarlyBear, postRetirement = postRetEarlyBear,
               finalValue = FullCycle.finalValue earlyBearResult,
               survivalYears = FullCycle.survivalYears earlyBearResult,
               color = ''#f59e0b'',
               preRetirementReturnRate = preRetirementReturn,
               postRetirementReturnRate = postRetirementReturn\<rparr>,
             \<lparr>SequenceScenario.name = ''Steady Average Returns'',
               description = ''Consistent average returns throughout'',
               preRetirement = preRetAverage, postRetirement = postRetAverage,
               finalValue = FullCycle.finalValue averageResult,
               survivalYears = FullCycle.survivalYears averageResult,
               color = ''#3b82f6'',
               preRetirementReturnRate = preRetirementReturn,
               postRetirementReturnRate = postRetirementReturn\<rparr>];
          totalYears = yearsUntilRetirement + retirementDuration + 1;
          projections =
            for_loop 0 totalYears
              (\<lambda>i projections.
                 let year = fullYear + int i;
                     age = currentAge + int i;
                     isRetirementYear = (i = yearsUntilRetirement);
                     isCriticalZone =
                       (int i \<ge> int yearsUntilRetirement - 5 \<and> i < yearsUntilRetirement)
                 in projections @
                    [\<lparr>SequenceProjection.year = year, age = age,
                       isRetirementYear = isRetirementYear,
                       isCriticalZone = isCriticalZone,
                       bestCase = or_zero (values' bestCaseResult) i,
                       worstCase = or_zero (values' worstCaseResult) i,
                       earlyBear = or_zero (values' earlyBearResult) i,
                       average = or_zero (values' averageResult) i\<rparr>])
              []
      in (scenarios, projections))"

section \<open>Monte Carlo simulation\<close>

text \<open>
  \<open>runMonteCarloSimulation\<close> is modelled for every number it may be handed. The solver that
  supplies \<open>annualInvestment\<close> has no divergence detection: in double precision its iterates
  overflow for long horizons at high returns (from age 20 to 80 with the Very High Risk
  vehicle and the form's other defaults it delivers \<open>NaN\<close>, to 78 \<open>Infinity\<close>), which the
  model of the solver over the reals does not show.
\<close>

definition numSimulations :: nat where
  "numSimulations = 1000"

text \<open>The simulation loop of \<open>runMonteCarloSimulation\<close>: 1000 paths of yearly values.\<close>

definition runSimulations ::
  "(nat \<Rightarrow> real) \<Rightarrow> nat \<Rightarrow> number \<Rightarrow> number \<Rightarrow> number \<Rightarrow> number
     \<Rightarrow> number list list \<times> nat" where
  "\<And>rng yearsUntilRetirement annualInvestment expectedReturn volatility salaryGrowthRate.
   runSimulations rng yearsUntilRetirement annualInvestment expectedReturn volatility
       salaryGrowthRate =
     for_loop 0 numSimulations
       (\<lambda>sim (simulations, pos).
          let (portfolioValue, yearlyValues, pos) =
                for_loop 1 (Suc yearsUntilRetirement)
                  (\<lambda>year (portfolioValue, yearlyValues, pos).
                     let (annualReturn, pos) =
                           generateNormalRandom rng (divide_by expectedReturn 100)
                             (divide_by volatility 100) pos;
                         yearContribution =
                           annualInvestment * Math_pow_number (Num 1 + salaryGrowthRate) (year - 1);
                         portfolioValue = (portfolioValue + yearContribution) * (Num 1 + annualReturn)
                     in (portfolioValue, yearlyValues @ [portfolioValue], pos))
                  (Num 0, [Num 0], pos)
          in (simulations @ [yearlyValues], pos))
       ([], 0)"

text \<open>
  The deterministic value of a year: the inner loop of the percentile loop, guarded by
  \<open>year > 0\<close>.
\<close>

definition deterministicValue :: "number \<Rightarrow> number \<Rightarrow> number \<Rightarrow> nat \<Rightarrow> number" where
  "\<And>annualInvestment salaryGrowthRate expectedReturn year.
   deterministicValue annualInvestment salaryGrowthRate expectedReturn year =
     (if year > 0 then
        for_loop 1 (Suc year)
          (\<lambda>i deterministicValue.
             let yearContribution =
                   annualInvestment * Math_pow_number (Num 1 + salaryGrowthRate) (i - 1)
             in (deterministicValue + yearContribution) * (Num 1 + divide_by expectedReturn 100))
          (Num 0)
      else Num 0)"

text \<open>
  The percentile loop. Each year's values are sorted with
  \<open>sort((a, b) => a - b)\<close> and read at the indices \<open>Math.floor(numSimulations * p)\<close>.
\<close>

definition runMonteCarloSimulation ::
  "(nat \<Rightarrow> real) \<Rightarrow> int \<Rightarrow> nat \<Rightarrow> number \<Rightarrow> number \<Rightarrow> number \<Rightarrow> number \<Rightarrow> int \<Rightarrow> number
     \<Rightarrow> MonteCarloProjection list" where
  "\<And>rng fullYear yearsUntilRetirement annualInvestment expectedReturn volatility targetCorpus
      currentAge salaryGrowthRate.
   runMonteCarloSimulation rng fullYear yearsUntilRetirement annualInvestment expectedReturn
       volatility targetCorpus currentAge salaryGrowthRate =
     (let simulations = fst (runSimulations rng yearsUntilRetirement annualInvestment
                               expectedReturn volatility salaryGrowthRate)
      in for_loop 0 (Suc yearsUntilRetirement)
           (\<lambda>year projections.
              let yearValues = Array_sort (\<lambda>a b. a - b) (map (\<lambda>sim. sim ! year) simulations)
              in projections @
                 [\<lparr>MonteCarloProjection.year = fullYear + int year,
                    age = currentAge + int year,
                    p10 = yearValues ! nat (Math_floor (real numSimulations * 0.1)),
                    p25 = yearValues ! nat (Math_floor (real numSimulations * 0.25)),
                    p50 = yearValues ! nat (Math_floor (real numSimulations * 0.5)),
                    p75 = yearValues ! nat (Math_floor (real numSimulations * 0.75)),
                    p90 = yearValues ! nat (Math_floor (real numSimulations * 0.9)),
                    target = targetCorpus,
                    deterministic =
                      deterministicValue annualInvestment salaryGrowthRate expectedReturn year\<rparr>])
           [])"

section \<open>The calculation: \<open>calculateRetirement\<close>\<close>

subsection \<open>The contribution solver\<close>

definition maxIterations :: nat where
  "maxIterations = 100"

text \<open>The solver's inner loop: the accumulation simulated with the current guess.\<close>

definition testAccumulation :: "real \<Rightarrow> real \<Rightarrow> real \<Rightarrow> nat \<Rightarrow> real \<times> real" where
  "\<And>testAnnualInvestment annualSalaryGrowth vehicleReturnRate yearsUntilRetirement.
   testAccumulation testAnnualInvestment annualSalaryGrowth vehicleReturnRate yearsUntilRetirement =
     for_loop 1 (Suc yearsUntilRetirement)
       (\<lambda>i (testTotalValue, testCumulativeContribution).
          let yearContribution = testAnnualInvestment * Math_pow (1 + annualSalaryGrowth) (int i - 1);
              testCumulativeContribution = testCumulativeContribution + yearContribution;
              testTotalValue = (testTotalValue + yearContribution) * (1 + vehicleReturnRate / 100)
          in (testTotalValue, testCumulativeContribution))
       (0, 0)"

text \<open>
  The \<open>while (iterations < maxIterations)\<close> loop, from the state
  \<open>(testAnnualInvestment, iterations)\<close>; it returns the state at which the loop is left, by
  \<open>break\<close> or by its condition.
\<close>

function solverLoop :: "real \<Rightarrow> real \<Rightarrow> real \<Rightarrow> nat \<Rightarrow> real \<times> nat \<Rightarrow> real \<times> nat" where
  "\<And>finalTargetCorpus annualSalaryGrowth vehicleReturnRate yearsUntilRetirement
      testAnnualInvestment iterations.
   solverLoop finalTargetCorpus annualSalaryGrowth vehicleReturnRate yearsUntilRetirement
       (testAnnualInvestment, iterations) =
     (if iterations < maxIterations then
        (let testTotalValue = fst (testAccumulation testAnnualInvestment annualSalaryGrowth
                                     vehicleReturnRate yearsUntilRetirement);
             difference = finalTargetCorpus - testTotalValue
         in if \<bar>difference\<bar> < 1000 then (testAnnualInvestment, iterations)
            else solverLoop finalTargetCorpus annualSalaryGrowth vehicleReturnRate
                   yearsUntilRetirement
                   (testAnnualInvestment + difference / real yearsUntilRetirement / 10,
                    Suc iterations))
      else (testAnnualInvestment, iterations))"
  by pat_completeness auto
termination
  by (relation "measure (\<lambda>(t, g, r, n, a, iterations). maxIterations - iterations)") auto

declare solverLoop.simps [simp del]

definition solveAnnualInvestment :: "real \<Rightarrow> real \<Rightarrow> real \<Rightarrow> nat \<Rightarrow> real \<times> nat" where
  "\<And>finalTargetCorpus annualSalaryGrowth vehicleReturnRate yearsUntilRetirement.
   solveAnnualInvestment finalTargetCorpus annualSalaryGrowth vehicleReturnRate
       yearsUntilRetirement =
     solverLoop finalTargetCorpus annualSalaryGrowth vehicleReturnRate yearsUntilRetirement
       (finalTargetCorpus / real yearsUntilRetirement / 1.5, 0)"

subsection \<open>The deterministic projections\<close>

text \<open>
  The loop that builds \<open>yearlyProjections\<close>, with its state
  \<open>(cumulativeContribution, totalValue, yearlyProjections)\<close>.
\<close>

definition yearlyProjectionsLoop ::
  "int \<Rightarrow> int \<Rightarrow> real \<Rightarrow> real \<Rightarrow> real \<Rightarrow> nat \<Rightarrow> real \<times> real \<times> YearlyProjection list" where
  "\<And>fullYear age annualInvestment annualSalaryGrowth vehicleReturnRate yearsUntilRetirement.
   yearlyProjectionsLoop fullYear age annualInvestment annualSalaryGrowth vehicleReturnRate
       yearsUntilRetirement =
     for_loop 0 (Suc yearsUntilRetirement)
       (\<lambda>i (cumulativeContribution, totalValue, yearlyProjections).
          let currentYear = fullYear + int i;
              currentUserAge = age + int i;
              (cumulativeContribution, totalValue) =
                (if i > 0 then
                   let yearContribution =
                         annualInvestment * Math_pow (1 + annualSalaryGrowth) (int i - 1);
                       cumulativeContribution = cumulativeContribution + yearContribution;
                       totalValue = (totalValue + yearContribution) * (1 + vehicleReturnRate / 100)
                   in (cumulativeContribution, totalValue)
                 else (cumulativeContribution, totalValue));
              investmentReturns = totalValue - cumulativeContribution
          in (cumulativeContribution, totalValue,
              yearlyProjections @
              [\<lparr>YearlyProjection.year = currentYear, age = currentUserAge,
                 annualContribution =
                   (if i = 0 then 0
                    else annualInvestment * Math_pow (1 + annualSalaryGrowth) (int i - 1)),
                 cumulativeContribution = cumulativeContribution,
                 investmentReturns = investmentReturns,
                 totalValue = totalValue\<rparr>]))
       (0, 0, [])"

text \<open>
  The loop that builds \<open>postRetirementProjections\<close>, with its state
  \<open>(portfolioValue, postRetirementProjections)\<close>. The variable \<open>portfolioValue\<close> is not
  floored; only the recorded value is.
\<close>

definition postRetirementLoop ::
  "int \<Rightarrow> int \<Rightarrow> nat \<Rightarrow> nat \<Rightarrow> real \<Rightarrow> real \<Rightarrow> real \<Rightarrow> real
     \<Rightarrow> real \<times> PostRetirementProjection list" where
  "\<And>fullYear retAge yearsUntilRetirement retirementDuration inflationRate
      futureRetirementIncome postRetVehicleReturnRate finalTargetCorpus.
   postRetirementLoop fullYear retAge yearsUntilRetirement retirementDuration inflationRate
       futureRetirementIncome postRetVehicleReturnRate finalTargetCorpus =
     for_loop 0 (Suc retirementDuration)
       (\<lambda>i (portfolioValue, postRetirementProjections).
          let currentYear = fullYear + int yearsUntilRetirement + int i;
              currentUserAge = retAge + int i;
              withdrawal =
                (if i = 0 then 0
                 else futureRetirementIncome * Math_pow (1 + inflationRate) (int i - 1));
              portfolioValue =
                (if i > 0 then (portfolioValue - withdrawal) * (1 + postRetVehicleReturnRate / 100)
                 else portfolioValue)
          in (portfolioValue,
              postRetirementProjections @
              [\<lparr>PostRetirementProjection.year = currentYear, age = currentUserAge,
                 withdrawal = withdrawal,
                 portfolioValue = Math_max 0 portfolioValue\<rparr>]))
       (finalTargetCorpus, [])"

subsection \<open>The whole calculation\<close>

text \<open>
  The form fields are strings; the model starts from what \<open>parseInt\<close> and \<open>parseFloat\<close>
  return for them, \<open>None\<close> standing for \<open>NaN\<close>. The calendar year
  (\<open>new Date().getFullYear()\<close>) and the random generator are parameters.
\<close>

record FormState =
  currentAge :: "int option"
  retirementAge :: "int option"
  currentIncome :: "real option"
  selectedVehicle :: "int option"
  retirementIncomePercent :: "real option"
  safeWithdrawalRate :: "real option"
  salaryGrowth :: "real option"
  useLowestRiskPostRetirement :: bool
  postRetirementVehicle :: "int option"

text \<open>
  The function ends in one of three ways: an \<open>alert\<close> and an early return, a
  \<open>TypeError\<close> (a property read of an \<open>undefined\<close> vehicle), or \<open>setResults\<close>.
\<close>

datatype Outcome = Alert string | TypeError | SetResults CalculationResults

definition isNaN :: "'a option \<Rightarrow> bool" where
  "isNaN x = (x = None)"

text \<open>\<open>investmentVehicles[k]\<close>, which is \<open>undefined\<close> out of range or at \<open>NaN\<close>.\<close>

definition vehicleAt :: "int option \<Rightarrow> InvestmentVehicle option" where
  "vehicleAt k =
     (case k of
        None \<Rightarrow> None
      | Some k \<Rightarrow> if 0 \<le> k \<and> nat k < length investmentVehicles
                 then Some (investmentVehicles ! nat k) else None)"

text \<open>
  The body of \<open>calculateRetirement\<close> after the validation, on the validated values. Its
  arithmetic is over the reals, so what it hands to the Monte Carlo simulation is finite
  (\<open>Num\<close>).
\<close>

definition computeResults ::
  "int \<Rightarrow> (nat \<Rightarrow> real) \<Rightarrow> int \<Rightarrow> int \<Rightarrow> real \<Rightarrow> InvestmentVehicle \<Rightarrow> real \<Rightarrow> real \<Rightarrow> real
     \<Rightarrow> InvestmentVehicle \<Rightarrow> CalculationResults" where
  "\<And>fullYear rng age retAge income vehicle replacementRatio withdrawalRate annualSalaryGrowth
      postRetVehicle.
   computeResults fullYear rng age retAge income vehicle replacementRatio withdrawalRate
       annualSalaryGrowth postRetVehicle =
     (let retirementDuration = (40::nat);
          inflationRate = (0.03::real);
          yearsUntilRetirement = nat (retAge - age);
          futureIncome = income * Math_pow (1 + annualSalaryGrowth) (int yearsUntilRetirement);
          annualRetirementIncome = futureIncome * replacementRatio;
          futureRetirementIncome =
            annualRetirementIncome * Math_pow (1 + inflationRate) (int yearsUntilRetirement);
          targetRetirementCorpus = futureRetirementIncome / withdrawalRate;
          realReturnInRetirement = (returnRate vehicle / 100) - inflationRate;
          pvFactor =
            (if realReturnInRetirement > 0
             then (1 - Math_pow (1 + realReturnInRetirement) (- int retirementDuration))
                  / realReturnInRetirement
             else real retirementDuration);
          targetCorpusAnnuity = futureRetirementIncome * pvFactor;
          finalTargetCorpus = Math_max targetRetirementCorpus targetCorpusAnnuity;
          annualInvestment =
            fst (solveAnnualInvestment finalTargetCorpus annualSalaryGrowth (returnRate vehicle)
                   yearsUntilRetirement);
          monthlyInvestment = annualInvestment / 12;
          yearlyProjections =
            snd (snd (yearlyProjectionsLoop fullYear age annualInvestment annualSalaryGrowth
                        (returnRate vehicle) yearsUntilRetirement));
          incomePercentageNeeded = (annualInvestment / income) * 100;
          isUnrealistic = (incomePercentageNeeded > 75);
          totalContributions =
            YearlyProjection.cumulativeContribution
              (yearlyProjections ! (length yearlyProjections - 1));
          totalReturns =
            YearlyProjection.totalValue (yearlyProjections ! (length yearlyProjections - 1))
            - totalContributions;
          postRetirementProjections =
            snd (postRetirementLoop fullYear retAge yearsUntilRetirement retirementDuration
                   inflationRate futureRetirementIncome (returnRate postRetVehicle)
                   finalTargetCorpus);
          (monteCarloProjections, sequenceScenarios, sequenceProjections) =
            (case volatility vehicle of
               None \<Rightarrow> (None, None, None)
             | Some vol \<Rightarrow>
                 if vol \<noteq> 0 \<and> vol > 0 then
                   let monteCarloProjections =
                         runMonteCarloSimulation rng fullYear yearsUntilRetirement
                           (Num annualInvestment) (Num (returnRate vehicle)) (Num vol)
                           (Num finalTargetCorpus) age (Num annualSalaryGrowth);
                       sequenceResults =
                         calculateSequenceRisk fullYear yearsUntilRetirement annualInvestment
                           (returnRate vehicle) vol retirementDuration futureRetirementIncome
                           inflationRate annualSalaryGrowth (returnRate postRetVehicle) age
                   in (Some monteCarloProjections, Some (fst sequenceResults),
                       Some (snd sequenceResults))
                 else (None, None, None))
      in \<lparr>CalculationResults.yearsUntilRetirement = yearsUntilRetirement,
          targetRetirementCorpus = finalTargetCorpus,
          monthlyInvestmentNeeded = monthlyInvestment,
          annualInvestmentNeeded = annualInvestment,
          totalContributions = totalContributions,
          totalReturns = totalReturns,
          yearlyProjections = yearlyProjections,
          postRetirementProjections = postRetirementProjections,
          replacementRatio = replacementRatio,
          annualRetirementIncome = futureRetirementIncome,
          retirementDuration = retirementDuration,
          safeWithdrawalRate = withdrawalRate,
          isUnrealistic = isUnrealistic,
          incomePercentageNeeded = incomePercentageNeeded,
          monteCarloProjections = monteCarloProjections,
          postRetirementVehicle = postRetVehicle,
          sequenceScenarios = sequenceScenarios,
          sequenceProjections = sequenceProjections\<rparr>)"

definition calculateRetirement :: "int \<Rightarrow> (nat \<Rightarrow> real) \<Rightarrow> FormState \<Rightarrow> Outcome" where
  "calculateRetirement fullYear rng st =
     (let age = FormState.currentAge st;
          retAge = FormState.retirementAge st;
          income = FormState.currentIncome st;
          vehicle = vehicleAt (FormState.selectedVehicle st);
          replacementRatio = map_option (\<lambda>p. p / 100) (FormState.retirementIncomePercent st);
          withdrawalRate = map_option (\<lambda>p. p / 100) (FormState.safeWithdrawalRate st);
          annualSalaryGrowth = map_option (\<lambda>p. p / 100) (FormState.salaryGrowth st)
      in if isNaN age \<or> isNaN retAge \<or> isNaN income \<or> isNaN replacementRatio
            \<or> isNaN withdrawalRate \<or> isNaN annualSalaryGrowth
         then Alert ''Please ensure all fields are filled with valid numbers''
         else if the age \<ge> the retAge
         then Alert ''Retirement age must be greater than current age''
         else if the income \<le> 0
         then Alert ''Current income must be greater than zero''
         else
           (case vehicle of
              None \<Rightarrow> TypeError
            | Some vehicle \<Rightarrow>
                (case (if FormState.useLowestRiskPostRetirement st
                       then vehicleAt (Some 0)
                       else vehicleAt (FormState.postRetirementVehicle st)) of
                   None \<Rightarrow> TypeError
                 | Some postRetVehicle \<Rightarrow>
                     SetResults
                       (computeResults fullYear rng (the age) (the retAge) (the income) vehicle
                          (the replacementRatio) (the withdrawalRate) (the annualSalaryGrowth)
                          postRetVehicle))))"

section \<open>Closed forms of the loops\<close>

text \<open>
  The functions of this section are not in the source: they are the closed forms by which
  the loops are reasoned about. \<open>drawdownValue\<close> is the value of the variable
  \<open>portfolioValue\<close> of the drawdown loop after \<open>k\<close> withdrawals, before any flooring, and
  \<open>postRetirementRow\<close> is the row that the loop records for year \<open>i\<close>.
\<close>

fun drawdownValue :: "real \<Rightarrow> real \<Rightarrow> real \<Rightarrow> real \<Rightarrow> nat \<Rightarrow> real" where
  "drawdownValue income infl rate start 0 = start"
| "drawdownValue income infl rate start (Suc k) =
     (drawdownValue income infl rate start k - income * (1 + infl) ^ k) * (1 + rate / 100)"

definition postRetirementRow ::
  "int \<Rightarrow> int \<Rightarrow> nat \<Rightarrow> real \<Rightarrow> real \<Rightarrow> real \<Rightarrow> real \<Rightarrow> nat \<Rightarrow> PostRetirementProjection" where
  "postRetirementRow fullYear retAge years infl income rate start i =
     \<lparr>PostRetirementProjection.year = fullYear + int years + int i, age = retAge + int i,
        withdrawal = (if i = 0 then 0 else income * (1 + infl) ^ (i - 1)),
        portfolioValue = Math_max 0 (drawdownValue income infl rate start i)\<rparr>"

text \<open>
  \<open>accumulatedValue\<close> is the portfolio value after \<open>k\<close> years of contributions growing at
  the salary growth rate and compounding at the vehicle's return rate,
  \<open>accumulatedContribution\<close> the sum of these contributions, and \<open>yearlyRow\<close> the row that the
  accumulation loop records for year \<open>i\<close>.
\<close>

fun accumulatedValue :: "real \<Rightarrow> real \<Rightarrow> real \<Rightarrow> nat \<Rightarrow> real" where
  "accumulatedValue investment growth rate 0 = 0"
| "accumulatedValue investment growth rate (Suc k) =
     (accumulatedValue investment growth rate k + investment * (1 + growth) ^ k) * (1 + rate / 100)"

fun accumulatedContribution :: "real \<Rightarrow> real \<Rightarrow> nat \<Rightarrow> real" where
  "accumulatedContribution investment growth 0 = 0"
| "accumulatedContribution investment growth (Suc k) =
     accumulatedContribution investment growth k + investment * (1 + growth) ^ k"

definition yearlyRow :: "int \<Rightarrow> int \<Rightarrow> real \<Rightarrow> real \<Rightarrow> real \<Rightarrow> nat \<Rightarrow> YearlyProjection" where
  "yearlyRow fullYear startAge investment growth rate i =
     \<lparr>YearlyProjection.year = fullYear + int i, age = startAge + int i,
        annualContribution = (if i = 0 then 0 else investment * (1 + growth) ^ (i - 1)),
        cumulativeContribution = accumulatedContribution investment growth i,
        investmentReturns =
          accumulatedValue investment growth rate i - accumulatedContribution investment growth i,
        totalValue = accumulatedValue investment growth rate i\<rparr>"

text \<open>
  The same two recurrences with a return that changes from year to year, as in
  \<open>simulateFullCycle\<close>: \<open>sequenceAccumulated\<close> is the value after \<open>k\<close> years of accumulation, and
  \<open>sequenceDrawdown\<close> the value of the variable \<open>portfolioValue\<close> after \<open>k\<close> withdrawals, before
  any flooring.
\<close>

fun sequenceAccumulated :: "real \<Rightarrow> real \<Rightarrow> real list \<Rightarrow> nat \<Rightarrow> real" where
  "sequenceAccumulated investment growth preReturns 0 = 0"
| "sequenceAccumulated investment growth preReturns (Suc k) =
     (sequenceAccumulated investment growth preReturns k + investment * (1 + growth) ^ k)
     * (1 + preReturns ! k)"

fun sequenceDrawdown :: "real \<Rightarrow> real \<Rightarrow> real list \<Rightarrow> real \<Rightarrow> nat \<Rightarrow> real" where
  "sequenceDrawdown income infl postReturns start 0 = start"
| "sequenceDrawdown income infl postReturns start (Suc k) =
     (sequenceDrawdown income infl postReturns start k - income * (1 + infl) ^ k)
     * (1 + postReturns ! k)"

text \<open>
  \<open>pathValue\<close> is the value of one simulated path after \<open>y\<close> years, for the path that starts
  reading the random generator at position \<open>start\<close>; every year takes two draws.
\<close>

fun pathValue ::
  "(nat \<Rightarrow> real) \<Rightarrow> number \<Rightarrow> number \<Rightarrow> number \<Rightarrow> number \<Rightarrow> nat \<Rightarrow> nat \<Rightarrow> number" where
  "pathValue rng investment expectedReturn vol growth start 0 = Num 0"
| "pathValue rng investment expectedReturn vol growth start (Suc y) =
     (pathValue rng investment expectedReturn vol growth start y
        + investment * Math_pow_number (Num 1 + growth) y)
     * (Num 1 + fst (generateNormalRandom rng (divide_by expectedReturn 100)
                       (divide_by vol 100) (start + 2 * y)))"

section \<open>The form\<close>

text \<open>
  The state the form starts in (the initial values of its \<open>useState\<close> hooks), with the chosen
  vehicle as a parameter; the form itself starts at vehicle 1.
\<close>

definition initialForm :: "int \<Rightarrow> FormState" where
  "initialForm vehicle =
     \<lparr>FormState.currentAge = Some 24, retirementAge = Some 40, currentIncome = Some 52000,
        selectedVehicle = Some vehicle, retirementIncomePercent = Some 75,
        safeWithdrawalRate = Some 4, salaryGrowth = Some 2,
        useLowestRiskPostRetirement = True, postRetirementVehicle = Some 0\<rparr>"

section \<open>Basic facts\<close>

lemma Math_pow_nat: "Math_pow x (int n) = x ^ n"
  by (simp add: Math_pow_def)

lemma Math_pow_pred: "0 < i \<Longrightarrow> Math_pow x (int i - 1) = x ^ (i - 1)"
  by (simp add: Math_pow_def nat_diff_distrib')

lemma Math_max_eq: "Math_max a b = max a b"
  by (simp add: Math_max_def max_def)

lemma for_loop_done: "n \<le> i \<Longrightarrow> for_loop i n body s = s"
  by (subst for_loop.simps) simp

lemma for_loop_step: "i < n \<Longrightarrow> for_loop i n body s = for_loop (Suc i) n body (body i s)"
  by (subst for_loop.simps) simp

lemma for_loop_Suc: "i \<le> n \<Longrightarrow> for_loop i (Suc n) body s = body n (for_loop i n body s)"
proof (induction "n - i" arbitrary: i s)
  case 0
  then have "i = n" by simp
  then show ?case
    by (simp add: for_loop_step for_loop_done)
next
  case (Suc k)
  then have less: "i < n" and k: "k = n - Suc i" and le: "Suc i \<le> n"
    by simp_all
  have "for_loop i (Suc n) body s = for_loop (Suc i) (Suc n) body (body i s)"
    using less by (simp add: for_loop_step)
  also have "\<dots> = body n (for_loop (Suc i) n body (body i s))"
    using Suc.hyps(1) [OF k le] .
  also have "\<dots> = body n (for_loop i n body s)"
    using less by (simp add: for_loop_step)
  finally show ?case .
qed

lemma for_loop_push: "for_loop i n (\<lambda>i acc. acc @ [f i]) acc = acc @ map f [i..<n]"
proof (induction i n "\<lambda>(i::nat) acc. acc @ [f i]" acc rule: for_loop.induct)
  case (1 i n acc)
  show ?case
  proof (cases "i < n")
    case True
    then show ?thesis
      using "1.hyps" by (simp add: for_loop_step upt_conv_Cons)
  next
    case False
    then show ?thesis
      by (simp add: for_loop_done)
  qed
qed

section \<open>The return sequences\<close>

lemma generateSequence_bestCase:
  "generateSequence ''bestCase'' years baseReturn vol
     = map (\<lambda>i. (baseReturn + vol * (real i / real years - 0.5) * 2) / 100) [0..<years]"
  by (simp add: generateSequence_def Let_def for_loop_push)

lemma generateSequence_worstCase:
  "generateSequence ''worstCase'' years baseReturn vol
     = map (\<lambda>i. (baseReturn - vol * (real i / real years - 0.5) * 2) / 100) [0..<years]"
  by (simp add: generateSequence_def Let_def for_loop_push)

lemma generateSequence_earlyBear:
  "generateSequence ''earlyBear'' years baseReturn vol
     = map (\<lambda>i. if real i < real years * 0.3 then (baseReturn - vol * 0.8) / 100
                 else (baseReturn + vol * 0.4) / 100) [0..<years]"
proof -
  have body: "(\<lambda>i returns. if real i < real years * 0.3
                       then returns @ [(baseReturn - vol * 0.8) / 100]
                       else returns @ [(baseReturn + vol * 0.4) / 100])
     = (\<lambda>i returns. returns @ [if real i < real years * 0.3 then (baseReturn - vol * 0.8) / 100
                 else (baseReturn + vol * 0.4) / 100])"
    by (intro ext) simp
  show ?thesis
    unfolding generateSequence_def body by (simp add: for_loop_push)
qed

lemma generateSequence_average:
  "generateSequence ''average'' years baseReturn vol = map (\<lambda>i. baseReturn / 100) [0..<years]"
  by (simp add: generateSequence_def for_loop_push)

lemma length_generateSequence: "length (generateSequence type years baseReturn vol) = years"
proof -
  have body: "(\<lambda>i returns. if real i < real years * 0.3
                       then returns @ [(baseReturn - vol * 0.8) / 100]
                       else returns @ [(baseReturn + vol * 0.4) / 100])
     = (\<lambda>i returns. returns @ [if real i < real years * 0.3 then (baseReturn - vol * 0.8) / 100
                 else (baseReturn + vol * 0.4) / 100])"
    by (intro ext) simp
  show ?thesis
    unfolding generateSequence_def body by (simp add: for_loop_push Let_def)
qed

lemma sum_list_affine:
  "sum_list (map (\<lambda>i. c + d * real i) [0..<n]) = real n * c + d * (real n * (real n - 1) / 2)"
  by (induction n) (auto simp: field_simps)

lemma mean_average:
  assumes "0 < years"
  shows "arithmeticMean (generateSequence ''average'' years baseReturn vol) = baseReturn / 100"
proof -
  have "sum_list (map (\<lambda>i. baseReturn / 100) [0..<years]) = real years * (baseReturn / 100)"
    using sum_list_affine [of "baseReturn / 100" 0 years] by simp
  then show ?thesis
    using assms by (simp add: arithmeticMean_def generateSequence_average)
qed

lemma mean_bestCase:
  assumes "0 < years"
  shows "arithmeticMean (generateSequence ''bestCase'' years baseReturn vol)
           = baseReturn / 100 - vol / (100 * real years)"
proof -
  let ?f = "\<lambda>i. (baseReturn + vol * (real i / real years - 0.5) * 2) / 100"
  have f: "?f = (\<lambda>i. (baseReturn - vol) / 100 + (vol / (50 * real years)) * real i)"
    by (rule ext) (simp add: field_simps)
  have "sum_list (map ?f [0..<years])
          = real years * ((baseReturn - vol) / 100)
            + (vol / (50 * real years)) * (real years * (real years - 1) / 2)"
    unfolding f by (rule sum_list_affine)
  also have "\<dots> = real years * (baseReturn / 100 - vol / (100 * real years))"
    using assms by (simp add: field_simps)
  finally show ?thesis
    using assms by (simp add: arithmeticMean_def generateSequence_bestCase)
qed

lemma mean_worstCase:
  assumes "0 < years"
  shows "arithmeticMean (generateSequence ''worstCase'' years baseReturn vol)
           = baseReturn / 100 + vol / (100 * real years)"
proof -
  let ?f = "\<lambda>i. (baseReturn - vol * (real i / real years - 0.5) * 2) / 100"
  have f: "?f = (\<lambda>i. (baseReturn + vol) / 100 + (- vol / (50 * real years)) * real i)"
    by (rule ext) (simp add: field_simps)
  have "sum_list (map ?f [0..<years])
          = real years * ((baseReturn + vol) / 100)
            + (- vol / (50 * real years)) * (real years * (real years - 1) / 2)"
    unfolding f by (rule sum_list_affine)
  also have "\<dots> = real years * (baseReturn / 100 + vol / (100 * real years))"
    using assms by (simp add: field_simps)
  finally show ?thesis
    using assms by (simp add: arithmeticMean_def generateSequence_worstCase)
qed

text \<open>
  Claim C2: for every \<open>yearsUntilRetirement \<ge> 1\<close> the arithmetic mean of the generated
  pre-retirement return sequence equals the nominal return \<open>baseReturn / 100\<close> for the
  \<open>bestCase\<close>, \<open>worstCase\<close> and \<open>average\<close> sequence types.

  The source announces the sequences as having the same average, but \<open>progress = i / years\<close>
  runs over \<open>0, 1/years, ..., (years-1)/years\<close>, which is not centred on \<open>0.5\<close>: the means of
  \<open>bestCase\<close> and \<open>worstCase\<close> are off by \<open>vol / (100 * years)\<close> (lemmas \<open>mean_bestCase\<close>
  and \<open>mean_worstCase\<close>); only \<open>average\<close> has the nominal mean (\<open>mean_average\<close>). At 16 years,
  a 12% return and 15% volatility the three means are 0.110625, 0.129375 and 0.12.
\<close>

theorem generateSequence_mean_differs:
  "arithmeticMean (generateSequence ''bestCase'' 16 12 15) = 177 / 1600
   \<and> arithmeticMean (generateSequence ''worstCase'' 16 12 15) = 207 / 1600
   \<and> arithmeticMean (generateSequence ''average'' 16 12 15) = 12 / 100"
  by (simp add: arithmeticMean_def generateSequence_bestCase generateSequence_worstCase
      generateSequence_average upt_rec)

lemma bear_index: "real i < real years * 0.3 \<longleftrightarrow> i < nat \<lceil>real years * 0.3\<rceil>"
proof -
  have "real i < real years * 0.3 \<longleftrightarrow> int i < \<lceil>real years * 0.3\<rceil>"
    by (simp add: less_ceiling_iff)
  then show ?thesis by linarith
qed

lemma bear_count_le: "nat \<lceil>real years * 0.3\<rceil> \<le> years"
proof -
  have "real years * 0.3 \<le> real years" by simp
  then have "\<lceil>real years * 0.3\<rceil> \<le> int years" by (simp add: ceiling_le_iff)
  then show ?thesis by linarith
qed

text \<open>
  Claim C3, as amended: the \<open>earlyBear\<close> sequence assigns \<open>(baseReturn - 0.8 * vol) / 100\<close> to
  exactly the indices \<open>i\<close> with \<open>i < years * 0.3\<close>, that is to the first
  \<open>ceiling (years * 0.3)\<close> indices, and \<open>(baseReturn + 0.4 * vol) / 100\<close> to every remaining
  index. The loop compares the index with the unrounded product, so the bear regime is
  rounded up, not truncated.
\<close>

theorem earlyBear_two_regimes:
  "generateSequence ''earlyBear'' years baseReturn vol
     = replicate (nat \<lceil>real years * 0.3\<rceil>) ((baseReturn - vol * 0.8) / 100)
       @ replicate (years - nat \<lceil>real years * 0.3\<rceil>) ((baseReturn + vol * 0.4) / 100)"
proof (rule nth_equalityI)
  show "length (generateSequence ''earlyBear'' years baseReturn vol)
          = length (replicate (nat \<lceil>real years * 0.3\<rceil>) ((baseReturn - vol * 0.8) / 100)
              @ replicate (years - nat \<lceil>real years * 0.3\<rceil>) ((baseReturn + vol * 0.4) / 100))"
    using bear_count_le [of years] by (simp add: length_generateSequence)
next
  fix i
  assume "i < length (generateSequence ''earlyBear'' years baseReturn vol)"
  then have i: "i < years" by (simp add: length_generateSequence)
  then show "generateSequence ''earlyBear'' years baseReturn vol ! i
          = (replicate (nat \<lceil>real years * 0.3\<rceil>) ((baseReturn - vol * 0.8) / 100)
              @ replicate (years - nat \<lceil>real years * 0.3\<rceil>) ((baseReturn + vol * 0.4) / 100)) ! i"
    using bear_index [of i years]
    by (simp add: generateSequence_earlyBear nth_append)
qed

text \<open>
  With 16 years, \<open>Math.floor(16 * 0.3) = 4\<close>, yet index 4 (the fifth year) still carries the
  bear return, because \<open>4 < 4.8\<close>.
\<close>

theorem earlyBear_floor_counterexample:
  "\<not> (generateSequence ''earlyBear'' 16 12 15 ! 4
        = (if (4::nat) < nat (Math_floor (16 * 0.3))
           then (12 - 15 * 0.8) / 100 else (12 + 15 * 0.4) / 100))"
  by (simp add: generateSequence_earlyBear Math_floor_def)

section \<open>The drawdown projection\<close>

lemma Math_pow_powi: "Math_pow x n = x powi n"
  by (simp add: Math_pow_def power_int_def field_simps)

lemma postRetirementLoop_eq:
  "postRetirementLoop fullYear retAge years duration infl income rate start
     = (drawdownValue income infl rate start duration,
        map (postRetirementRow fullYear retAge years infl income rate start) [0..<Suc duration])"
proof (induction duration)
  case 0
  show ?case
    by (simp add: postRetirementLoop_def for_loop_step for_loop_done postRetirementRow_def)
next
  case (Suc d)
  have "postRetirementLoop fullYear retAge years (Suc d) infl income rate start
          = (\<lambda>i (portfolioValue, postRetirementProjections).
          let currentYear = fullYear + int years + int i;
              currentUserAge = retAge + int i;
              withdrawal =
                (if i = 0 then 0
                 else income * Math_pow (1 + infl) (int i - 1));
              portfolioValue =
                (if i > 0 then (portfolioValue - withdrawal) * (1 + rate / 100)
                 else portfolioValue)
          in (portfolioValue,
              postRetirementProjections @
              [\<lparr>PostRetirementProjection.year = currentYear, age = currentUserAge,
                 withdrawal = withdrawal,
                 portfolioValue = Math_max 0 portfolioValue\<rparr>])) (Suc d)
             (postRetirementLoop fullYear retAge years d infl income rate start)"
    unfolding postRetirementLoop_def by (rule for_loop_Suc) simp
  also have "\<dots> = (drawdownValue income infl rate start (Suc d),
        map (postRetirementRow fullYear retAge years infl income rate start) [0..<Suc (Suc d)])"
    unfolding Suc.IH
    by (simp add: Let_def postRetirementRow_def Math_pow_pred Math_pow_nat)
  finally show ?case .
qed

lemma computeResults_targetRetirementCorpus:
  fixes age retAge :: int and replacementRatio :: real
  shows "CalculationResults.targetRetirementCorpus
     (computeResults fullYear rng age retAge income vehicle replacementRatio withdrawalRate
        annualSalaryGrowth postRetVehicle)
   = Math_max
       (income * (1 + annualSalaryGrowth) ^ nat (retAge - age) * replacementRatio
          * (1 + 0.03) ^ nat (retAge - age) / withdrawalRate)
       (income * (1 + annualSalaryGrowth) ^ nat (retAge - age) * replacementRatio
          * (1 + 0.03) ^ nat (retAge - age)
        * (if returnRate vehicle / 100 - 0.03 > 0
           then (1 - (1 + (returnRate vehicle / 100 - 0.03)) powi (- 40))
                / (returnRate vehicle / 100 - 0.03)
           else 40))"
  by (simp add: computeResults_def Let_def split_beta Math_pow_nat Math_pow_powi)

lemma computeResults_postRetirementProjections:
  fixes age retAge :: int and replacementRatio :: real
  shows "CalculationResults.postRetirementProjections
     (computeResults fullYear rng age retAge income vehicle replacementRatio withdrawalRate
        annualSalaryGrowth postRetVehicle)
   = snd (postRetirementLoop fullYear retAge (nat (retAge - age)) 40 0.03
            (income * (1 + annualSalaryGrowth) ^ nat (retAge - age) * replacementRatio
               * (1 + 0.03) ^ nat (retAge - age))
            (returnRate postRetVehicle)
            (CalculationResults.targetRetirementCorpus
               (computeResults fullYear rng age retAge income vehicle replacementRatio
                  withdrawalRate annualSalaryGrowth postRetVehicle)))"
  by (simp add: computeResults_def Let_def split_beta Math_pow_nat)

lemma postRetirementLoop_length:
  "length (snd (postRetirementLoop fullYear retAge years duration infl income rate start))
     = Suc duration"
  by (simp add: postRetirementLoop_eq)

lemma postRetirementLoop_nth:
  assumes "i \<le> duration"
  shows "snd (postRetirementLoop fullYear retAge years duration infl income rate start) ! i
           = postRetirementRow fullYear retAge years infl income rate start i"
proof -
  have "i < length [0..<Suc duration]" using assms by simp
  then have "map (postRetirementRow fullYear retAge years infl income rate start)
               [0..<Suc duration] ! i
             = postRetirementRow fullYear retAge years infl income rate start ([0..<Suc duration] ! i)"
    by (rule nth_map)
  also have "[0..<Suc duration] ! i = i"
    using assms by (metis add_0 less_Suc_eq_le nth_upt)
  finally show ?thesis by (simp add: postRetirementLoop_eq)
qed

lemma postRetirementLoop_nonneg:
  assumes "row \<in> set (snd (postRetirementLoop fullYear retAge years duration infl income rate start))"
  shows "0 \<le> PostRetirementProjection.portfolioValue row"
proof -
  from assms obtain i
    where "row = postRetirementRow fullYear retAge years infl income rate start i"
    by (auto simp: postRetirementLoop_eq)
  then show ?thesis
    by (simp add: postRetirementRow_def Math_max_def)
qed

lemma drawdownValue_stays_nonpositive:
  assumes "0 \<le> income" and "0 \<le> 1 + infl" and "0 \<le> 1 + rate / 100"
    and "drawdownValue income infl rate start i \<le> 0" and "i \<le> j"
  shows "drawdownValue income infl rate start j \<le> 0"
  using \<open>i \<le> j\<close>
proof (induction j)
  case 0
  then show ?case using assms(4) by simp
next
  case (Suc j)
  show ?case
  proof (cases "i = Suc j")
    case True
    then show ?thesis using assms(4) by simp
  next
    case False
    then have "drawdownValue income infl rate start j \<le> 0"
      using Suc by simp
    moreover have "0 \<le> income * (1 + infl) ^ j"
      using assms(1,2) by simp
    ultimately have "drawdownValue income infl rate start j - income * (1 + infl) ^ j \<le> 0"
      by linarith
    then show ?thesis
      using assms(3) by (simp add: mult_le_0_iff)
  qed
qed

text \<open>
  Claim C8: the target corpus of the result equals \<open>max corpusBySWR corpusByAnnuity\<close>, and is
  therefore at least \<open>corpusBySWR\<close> and at least \<open>corpusByAnnuity\<close>, where
  \<open>corpusBySWR = futureRetirementIncome / safeWithdrawalRate\<close>,
  \<open>corpusByAnnuity = futureRetirementIncome * pvFactor\<close> and \<open>pvFactor\<close> is
  \<open>(1 - (1 + realReturn) ^ (- retirementDuration)) / realReturn\<close> when \<open>realReturn > 0\<close>, else
  \<open>retirementDuration\<close> (40 years, 3% inflation).
\<close>

theorem targetCorpus_is_max:
  fixes age retAge :: int and replacementRatio :: real
  shows
  "let n = nat (retAge - age);
       futureRetirementIncome =
         income * (1 + annualSalaryGrowth) ^ n * replacementRatio * (1 + 0.03) ^ n;
       realReturn = returnRate vehicle / 100 - 0.03;
       pvFactor = (if realReturn > 0 then (1 - (1 + realReturn) powi (- 40)) / realReturn else 40);
       corpusBySWR = futureRetirementIncome / withdrawalRate;
       corpusByAnnuity = futureRetirementIncome * pvFactor;
       targetCorpus =
         CalculationResults.targetRetirementCorpus
           (computeResults fullYear rng age retAge income vehicle replacementRatio
              withdrawalRate annualSalaryGrowth postRetVehicle)
   in targetCorpus = max corpusBySWR corpusByAnnuity
      \<and> targetCorpus \<ge> corpusBySWR \<and> targetCorpus \<ge> corpusByAnnuity"
  unfolding Let_def computeResults_targetRetirementCorpus Math_max_eq
  by simp

text \<open>
  Claim C6: the drawdown series of the result has one row for each year
  \<open>0..retirementDuration\<close>, and every recorded \<open>portfolioValue\<close> is \<open>\<ge> 0\<close>.
\<close>

theorem postRetirement_portfolioValue_nonneg:
  fixes age retAge :: int and replacementRatio :: real
  shows
  "length (CalculationResults.postRetirementProjections
             (computeResults fullYear rng age retAge income vehicle replacementRatio
                withdrawalRate annualSalaryGrowth postRetVehicle)) = 40 + 1
   \<and> (\<forall>row \<in> set (CalculationResults.postRetirementProjections
             (computeResults fullYear rng age retAge income vehicle replacementRatio
                withdrawalRate annualSalaryGrowth postRetVehicle)).
         0 \<le> PostRetirementProjection.portfolioValue row)"
  unfolding computeResults_postRetirementProjections
  using postRetirementLoop_nonneg
  by (simp add: postRetirementLoop_length)

text \<open>
  Claim C10: depletion is absorbing in the recorded drawdown series. If the post-retirement
  return rate is greater than -100% and every withdrawal is \<open>\<ge> 0\<close>, then once a recorded
  \<open>portfolioValue\<close> is 0 every later recorded \<open>portfolioValue\<close> is 0 as well: the unfloored
  value, once \<open>\<le> 0\<close>, never becomes positive again (\<open>drawdownValue_stays_nonpositive\<close>).
\<close>

theorem depletion_is_absorbing:
  fixes age retAge :: int and replacementRatio :: real
  assumes rows: "rows = CalculationResults.postRetirementProjections
             (computeResults fullYear rng age retAge income vehicle replacementRatio
                withdrawalRate annualSalaryGrowth postRetVehicle)"
    and rate: "returnRate postRetVehicle > - 100"
    and withdrawals: "\<forall>row \<in> set rows. 0 \<le> PostRetirementProjection.withdrawal row"
    and ij: "i \<le> j" "j < length rows"
    and depleted: "PostRetirementProjection.portfolioValue (rows ! i) = 0"
  shows "PostRetirementProjection.portfolioValue (rows ! j) = 0"
proof -
  define fri where "fri = income * (1 + annualSalaryGrowth) ^ nat (retAge - age) * replacementRatio
               * (1 + 0.03) ^ nat (retAge - age)"
  define start where "start = CalculationResults.targetRetirementCorpus
               (computeResults fullYear rng age retAge income vehicle replacementRatio
                  withdrawalRate annualSalaryGrowth postRetVehicle)"
  have loop: "rows = snd (postRetirementLoop fullYear retAge (nat (retAge - age)) 40 0.03 fri
            (returnRate postRetVehicle) start)"
    unfolding rows fri_def start_def by (rule computeResults_postRetirementProjections)
  have len: "length rows = 41"
    unfolding loop by (simp add: postRetirementLoop_length)
  have row: "rows ! k = postRetirementRow fullYear retAge (nat (retAge - age)) 0.03 fri
            (returnRate postRetVehicle) start k" if "k \<le> 40" for k
    unfolding loop using that by (rule postRetirementLoop_nth)
  have "rows ! 1 \<in> set rows"
    using len by (intro nth_mem) simp
  then have "0 \<le> PostRetirementProjection.withdrawal (rows ! 1)"
    using withdrawals by blast
  then have fri: "0 \<le> fri"
    by (simp add: row postRetirementRow_def)
  have j: "j \<le> 40" and i: "i \<le> 40"
    using ij len by simp_all
  have "drawdownValue fri 0.03 (returnRate postRetVehicle) start i \<le> 0"
    using depleted by (simp add: row [OF i] postRetirementRow_def Math_max_def split: if_splits)
  moreover have "0 \<le> 1 + returnRate postRetVehicle / 100"
    using rate by simp
  ultimately have "drawdownValue fri 0.03 (returnRate postRetVehicle) start j \<le> 0"
    using fri ij(1) drawdownValue_stays_nonpositive [of fri "0.03" "returnRate postRetVehicle" start i j]
    by simp
  then show ?thesis
    by (simp add: row [OF j] postRetirementRow_def Math_max_def)
qed

subsection \<open>A worked example\<close>

text \<open>
  A 30-year-old retiring at 31 on an income of 100000 with the High Risk vehicle, replaced
  at 100% with a 10% withdrawal rate and no salary growth: the retirement income is 103000
  and the corpus 1030000, which lasts ten years at the 4% of the Very Low Risk vehicle.
\<close>

lemma postRetirementLoop_withdrawal_nonneg:
  assumes "0 \<le> income" and "0 \<le> 1 + infl"
    and "row \<in> set (snd (postRetirementLoop fullYear retAge years duration infl income rate start))"
  shows "0 \<le> PostRetirementProjection.withdrawal row"
proof -
  from assms(3) obtain i
    where "row = postRetirementRow fullYear retAge years infl income rate start i"
    by (auto simp: postRetirementLoop_eq)
  then show ?thesis
    using assms(1,2) by (simp add: postRetirementRow_def)
qed

lemma example_targetCorpus:
  "CalculationResults.targetRetirementCorpus
     (computeResults 2026 (\<lambda>k. 1 / 2) 30 31 100000 (investmentVehicles ! 3) 1 0.1 0
        (investmentVehicles ! 0))
   = 1030000"
proof -
  have "0 \<le> (23 / 20 :: real) powi (- 40)"
    by simp
  moreover have "(1 - x) / (3 / 20) \<le> 10" if "0 \<le> x" for x :: real
    using that by (simp add: field_simps)
  ultimately have "(1 - (23 / 20 :: real) powi (- 40)) / (3 / 20) \<le> 10"
    by blast
  then show ?thesis
    unfolding computeResults_targetRetirementCorpus
    by (simp add: investmentVehicles_def Math_max_def)
qed

lemma example_depleted: "drawdownValue 103000 0.03 4 1030000 11 \<le> 0"
  by (simp add: eval_nat_numeral)

lemma example_not_depleted: "drawdownValue 103000 0.03 4 1030000 10 > 0"
  by (simp add: eval_nat_numeral)

lemma example_rows:
  "CalculationResults.postRetirementProjections
     (computeResults 2026 (\<lambda>k. 1 / 2) 30 31 100000 (investmentVehicles ! 3) 1 0.1 0
        (investmentVehicles ! 0))
   = snd (postRetirementLoop 2026 31 1 40 0.03 103000 4 1030000)"
  unfolding computeResults_postRetirementProjections example_targetCorpus
  by (simp add: investmentVehicles_def)

text \<open>
  The series of a 30-year-old retiring at 31 on an income of 100000, replaced at 100% with a
  10% withdrawal rate: the corpus is 1030000 and the first recorded year holds 964080.
\<close>

theorem postRetirement_portfolioValue_nonneg_witness:
  "PostRetirementProjection.portfolioValue
     (CalculationResults.postRetirementProjections
        (computeResults 2026 (\<lambda>k. 1 / 2) 30 31 100000 (investmentVehicles ! 3) 1 0.1 0
           (investmentVehicles ! 0)) ! 1) = 964080
   \<and> 0 \<le> PostRetirementProjection.portfolioValue
     (CalculationResults.postRetirementProjections
        (computeResults 2026 (\<lambda>k. 1 / 2) 30 31 100000 (investmentVehicles ! 3) 1 0.1 0
           (investmentVehicles ! 0)) ! 1)"
proof -
  let ?rows = "CalculationResults.postRetirementProjections
        (computeResults 2026 (\<lambda>k. 1 / 2) 30 31 100000 (investmentVehicles ! 3) 1 0.1 0
           (investmentVehicles ! 0))"
  have all: "length ?rows = 40 + 1
      \<and> (\<forall>row \<in> set ?rows. 0 \<le> PostRetirementProjection.portfolioValue row)"
    by (rule postRetirement_portfolioValue_nonneg)
  then have "?rows ! 1 \<in> set ?rows"
    by (intro nth_mem) simp
  with all have "0 \<le> PostRetirementProjection.portfolioValue (?rows ! 1)"
    by blast
  moreover have "PostRetirementProjection.portfolioValue (?rows ! 1) = 964080"
    unfolding example_rows
    by (simp add: postRetirementLoop_nth postRetirementRow_def Math_max_def)
  ultimately show ?thesis by simp
qed

text \<open>
  In the series above the portfolio is depleted in year 11 (it still holds money in year 10,
  \<open>example_not_depleted\<close>), and year 40 records 0.
\<close>

theorem depletion_is_absorbing_witness:
  "returnRate (investmentVehicles ! 0) > - 100
   \<and> PostRetirementProjection.portfolioValue
     (CalculationResults.postRetirementProjections
        (computeResults 2026 (\<lambda>k. 1 / 2) 30 31 100000 (investmentVehicles ! 3) 1 0.1 0
           (investmentVehicles ! 0)) ! 11) = 0
   \<and> PostRetirementProjection.portfolioValue
     (CalculationResults.postRetirementProjections
        (computeResults 2026 (\<lambda>k. 1 / 2) 30 31 100000 (investmentVehicles ! 3) 1 0.1 0
           (investmentVehicles ! 0)) ! 40) = 0"
proof -
  let ?rows = "CalculationResults.postRetirementProjections
        (computeResults 2026 (\<lambda>k. 1 / 2) 30 31 100000 (investmentVehicles ! 3) 1 0.1 0
           (investmentVehicles ! 0))"
  have rate: "returnRate (investmentVehicles ! 0) > - 100"
    by (simp add: investmentVehicles_def)
  have withdrawals: "\<forall>row \<in> set ?rows. 0 \<le> PostRetirementProjection.withdrawal row"
    unfolding example_rows
    using postRetirementLoop_withdrawal_nonneg [of 103000 "0.03"] by simp
  have len: "length ?rows = 41"
    unfolding example_rows by (simp add: postRetirementLoop_length)
  have depleted: "PostRetirementProjection.portfolioValue (?rows ! 11) = 0"
    unfolding example_rows
    using example_depleted
    by (simp add: postRetirementLoop_nth postRetirementRow_def Math_max_def)
  have "PostRetirementProjection.portfolioValue (?rows ! 40) = 0"
    using depletion_is_absorbing [OF refl rate withdrawals _ _ depleted, of 40] len
    by simp
  with rate depleted show ?thesis by simp
qed

section \<open>The accumulation and the contribution solver\<close>

lemma for_loop_from_1_Suc:
  "for_loop 1 (Suc (Suc n)) body s = body (Suc n) (for_loop 1 (Suc n) body s)"
  by (rule for_loop_Suc) simp

lemma testAccumulation_eq:
  "testAccumulation investment growth rate n
     = (accumulatedValue investment growth rate n, accumulatedContribution investment growth n)"
proof (induction n)
  case 0
  show ?case
    by (simp add: testAccumulation_def for_loop_done)
next
  case (Suc n)
  then show ?case
    unfolding testAccumulation_def for_loop_from_1_Suc
    by (simp add: Let_def Math_pow_nat)
qed

lemma yearlyProjectionsLoop_eq:
  "yearlyProjectionsLoop fullYear startAge investment growth rate n
     = (accumulatedContribution investment growth n, accumulatedValue investment growth rate n,
        map (yearlyRow fullYear startAge investment growth rate) [0..<Suc n])"
proof (induction n)
  case 0
  show ?case
    by (simp add: yearlyProjectionsLoop_def for_loop_step for_loop_done yearlyRow_def)
next
  case (Suc n)
  have step: "for_loop 0 (Suc (Suc n)) body s = body (Suc n) (for_loop 0 (Suc n) body s)"
    for body :: "nat \<Rightarrow> real \<times> real \<times> YearlyProjection list \<Rightarrow> real \<times> real \<times> YearlyProjection list"
      and s
    by (rule for_loop_Suc) simp
  from Suc show ?case
    unfolding yearlyProjectionsLoop_def step
    by (simp add: Let_def Math_pow_nat yearlyRow_def)
qed

lemma yearlyProjections_nth:
  assumes "y \<le> n"
  shows "snd (snd (yearlyProjectionsLoop fullYear startAge investment growth rate n)) ! y
           = yearlyRow fullYear startAge investment growth rate y"
proof -
  have "y < length [0..<Suc n]" using assms by simp
  then have "map (yearlyRow fullYear startAge investment growth rate) [0..<Suc n] ! y
             = yearlyRow fullYear startAge investment growth rate ([0..<Suc n] ! y)"
    by (rule nth_map)
  also have "[0..<Suc n] ! y = y"
    using assms by (metis add_0 less_Suc_eq_le nth_upt)
  finally show ?thesis by (simp add: yearlyProjectionsLoop_eq)
qed

lemma yearlyProjections_last:
  "YearlyProjection.totalValue
     (last (snd (snd (yearlyProjectionsLoop fullYear startAge investment growth rate n))))
   = accumulatedValue investment growth rate n"
  by (simp add: yearlyProjectionsLoop_eq yearlyRow_def)

lemma solverLoop_exit:
  assumes "solverLoop corpus growth rate n (guess, count) = (investment, iterations)"
    and "count \<le> maxIterations"
  shows "iterations \<le> maxIterations
         \<and> (\<bar>corpus - fst (testAccumulation investment growth rate n)\<bar> < 1000
            \<or> iterations = maxIterations)"
  using assms
proof (induction corpus growth rate n "(guess, count)" arbitrary: guess count
       rule: solverLoop.induct)
  case (1 corpus growth rate n guess count)
  show ?case
  proof (cases "count < maxIterations")
    case False
    with "1.prems" show ?thesis
      by (simp add: solverLoop.simps)
  next
    case True
    show ?thesis
    proof (cases "\<bar>corpus - fst (testAccumulation guess growth rate n)\<bar> < 1000")
      case True
      with \<open>count < maxIterations\<close> "1.prems" show ?thesis
        by (simp add: solverLoop.simps)
    next
      case False
      with \<open>count < maxIterations\<close> "1.prems"(1)
      have "solverLoop corpus growth rate n
              (guess + (corpus - fst (testAccumulation guess growth rate n)) / real n / 10,
               Suc count) = (investment, iterations)"
        by (simp add: solverLoop.simps [of corpus growth rate n guess count])
      moreover have "Suc count \<le> maxIterations"
        using \<open>count < maxIterations\<close> by simp
      ultimately show ?thesis
        using "1.hyps" [OF \<open>count < maxIterations\<close> refl refl False] by blast
    qed
  qed
qed

text \<open>
  Claim C1: for every valid input (\<open>yearsUntilRetirement \<ge> 1\<close>, salary growth rate, return rate,
  target corpus) the solver's loop terminates (\<open>solverLoop\<close> is a total function, and it leaves
  the loop after at most 100 iterations) with an \<open>annualInvestment\<close> such that re-running the
  accumulation with it (the final \<open>totalValue\<close> of the yearly projections) lands within 1000
  of the target corpus, or the loop has performed its full 100 iterations.
\<close>

theorem solver_within_tolerance_or_capped:
  fixes startAge :: int
  assumes "1 \<le> years"
    and "solveAnnualInvestment corpus growth rate years = (annualInvestment, iterations)"
  shows "iterations \<le> 100
     \<and> (\<bar>corpus - YearlyProjection.totalValue
           (last (snd (snd (yearlyProjectionsLoop fullYear startAge annualInvestment growth rate
                              years))))\<bar> < 1000
        \<or> iterations = 100)"
proof -
  have "iterations \<le> maxIterations
         \<and> (\<bar>corpus - fst (testAccumulation annualInvestment growth rate years)\<bar> < 1000
            \<or> iterations = maxIterations)"
    using assms(2) unfolding solveAnnualInvestment_def
    by (rule solverLoop_exit) simp
  then show ?thesis
    by (simp add: yearlyProjections_last testAccumulation_eq maxIterations_def)
qed

lemma example_solver: "solveAnnualInvestment 4500 0.02 12 1 = (401904 / 125, 2)"
  by (simp add: solveAnnualInvestment_def solverLoop.simps maxIterations_def testAccumulation_eq)

text \<open>
  A target of 4500 in one year at 12%: the first guess 3000 and the second 3114 miss by more
  than 1000, the third is accepted after two iterations.
\<close>

theorem solver_within_tolerance_or_capped_witness:
  "(1::nat) \<le> 1
   \<and> solveAnnualInvestment 4500 0.02 12 1 = (401904 / 125, 2)
   \<and> \<bar>4500 - YearlyProjection.totalValue
           (last (snd (snd (yearlyProjectionsLoop 2026 24 (401904 / 125) 0.02 12 1))))\<bar> < 1000"
  using solver_within_tolerance_or_capped [of 1 4500 "0.02" 12 "401904 / 125" 2 2026 24]
    example_solver
  by simp

section \<open>The Monte Carlo simulation\<close>

subsection \<open>Numbers\<close>

lemma plus_NaN_right [simp]: "x + NaN = NaN"
  by (cases x) simp_all

lemma times_NaN_right [simp]: "x * NaN = NaN"
  by (cases x) simp_all

lemma not_le_NaN [simp]: "\<not> x \<le> NaN" "\<not> NaN \<le> y"
  by (cases x) simp_all

text \<open>
  Away from \<open>NaN\<close> the comparison is a total preorder, and \<open>a - b\<close> is positive exactly where
  \<open>b < a\<close>.
\<close>

lemma number_le_trans:
  fixes x y z :: number
  shows "x \<le> y \<Longrightarrow> y \<le> z \<Longrightarrow> x \<le> z"
  by (cases x; cases y; cases z) simp_all

lemma number_compare_positive:
  fixes x y :: number
  assumes "x \<noteq> NaN" and "y \<noteq> NaN"
  shows "Num 0 < x - y \<Longrightarrow> y \<le> x" and "\<not> Num 0 < x - y \<Longrightarrow> x \<le> y"
  using assms by (cases x; cases y; simp)+

subsection \<open>Sorting\<close>

lemma set_sort_insert: "set (sort_insert comparefn x ys) = insert x (set ys)"
  by (induction ys) auto

lemma length_sort_insert: "length (sort_insert comparefn x ys) = Suc (length ys)"
  by (induction ys) auto

lemma set_Array_sort: "set (Array_sort comparefn xs) = set xs"
  by (induction xs) (simp_all add: Array_sort_def set_sort_insert)

lemma length_Array_sort: "length (Array_sort comparefn xs) = length xs"
  by (induction xs) (simp_all add: Array_sort_def length_sort_insert)

lemma sorted_sort_insert:
  assumes "x \<noteq> NaN" and "NaN \<notin> set ys" and "sorted_wrt (\<le>) ys"
  shows "sorted_wrt (\<le>) (sort_insert (\<lambda>a b. a - b) x ys)"
  using assms
proof (induction ys)
  case Nil
  show ?case by simp
next
  case (Cons y ys)
  then have y: "y \<noteq> NaN" and ys: "NaN \<notin> set ys"
    and below: "\<forall>z \<in> set ys. y \<le> z" and sorted: "sorted_wrt (\<le>) ys"
    by auto
  show ?case
  proof (cases "Num 0 < x - y")
    case True
    then have "y \<le> x"
      using number_compare_positive(1) [OF Cons.prems(1) y] by simp
    with below have "\<forall>z \<in> set (sort_insert (\<lambda>a b. a - b) x ys). y \<le> z"
      by (simp add: set_sort_insert)
    moreover have "sorted_wrt (\<le>) (sort_insert (\<lambda>a b. a - b) x ys)"
      using Cons.IH [OF Cons.prems(1) ys sorted] .
    ultimately show ?thesis
      using True by simp
  next
    case False
    then have xy: "x \<le> y"
      using number_compare_positive(2) [OF Cons.prems(1) y] by simp
    then have "\<forall>z \<in> set ys. x \<le> z"
      using below number_le_trans by blast
    with xy below sorted show ?thesis
      using False by simp
  qed
qed

lemma sorted_Array_sort:
  assumes "NaN \<notin> set xs"
  shows "sorted_wrt (\<le>) (Array_sort (\<lambda>a b. a - b) xs)"
  using assms
proof (induction xs)
  case Nil
  show ?case by (simp add: Array_sort_def)
next
  case (Cons x xs)
  then have "sorted_wrt (\<le>) (Array_sort (\<lambda>a b. a - b) xs)"
    and "x \<noteq> NaN" and "NaN \<notin> set (Array_sort (\<lambda>a b. a - b) xs)"
    by (auto simp: set_Array_sort)
  then have "sorted_wrt (\<le>) (sort_insert (\<lambda>a b. a - b) x (Array_sort (\<lambda>a b. a - b) xs))"
    using sorted_sort_insert by blast
  then show ?case
    by (simp add: Array_sort_def)
qed

lemma sorted_percentiles:
  assumes "length xs = 1000" and "NaN \<notin> set xs"
  shows "Array_sort (\<lambda>a b. a - b) xs ! 100 \<le> Array_sort (\<lambda>a b. a - b) xs ! 250
       \<and> Array_sort (\<lambda>a b. a - b) xs ! 250 \<le> Array_sort (\<lambda>a b. a - b) xs ! 500
       \<and> Array_sort (\<lambda>a b. a - b) xs ! 500 \<le> Array_sort (\<lambda>a b. a - b) xs ! 750
       \<and> Array_sort (\<lambda>a b. a - b) xs ! 750 \<le> Array_sort (\<lambda>a b. a - b) xs ! 900"
proof -
  have "sorted_wrt (\<le>) (Array_sort (\<lambda>a b. a - b) xs)"
    using assms(2) by (rule sorted_Array_sort)
  moreover have "length (Array_sort (\<lambda>a b. a - b) xs) = 1000"
    using assms(1) by (simp add: length_Array_sort)
  ultimately show ?thesis
    by (simp add: sorted_wrt_iff_nth_less)
qed

lemma all_NaN_percentiles:
  assumes "length xs = 1000" and "set xs \<subseteq> {NaN}" and "i < 1000"
  shows "Array_sort comparefn xs ! i = NaN"
proof -
  have "Array_sort comparefn xs ! i \<in> set (Array_sort comparefn xs)"
    using assms(1,3) by (intro nth_mem) (simp add: length_Array_sort)
  then show ?thesis
    using assms(2) by (auto simp: set_Array_sort)
qed

subsection \<open>The simulated paths\<close>

lemma generateNormalRandom_pos:
  "snd (generateNormalRandom rng mean stdDev pos) = pos + 2"
  by (simp add: generateNormalRandom_def Math_random_def Let_def)

lemma path_loop_eq:
  "for_loop 1 (Suc n)
     (\<lambda>year (portfolioValue, yearlyValues, pos).
        let (annualReturn, pos) =
              generateNormalRandom rng (divide_by expectedReturn 100) (divide_by vol 100) pos;
            yearContribution = investment * Math_pow_number (Num 1 + growth) (year - 1);
            portfolioValue = (portfolioValue + yearContribution) * (Num 1 + annualReturn)
        in (portfolioValue, yearlyValues @ [portfolioValue], pos))
     (Num 0, [Num 0], start)
   = (pathValue rng investment expectedReturn vol growth start n,
      map (pathValue rng investment expectedReturn vol growth start) [0..<Suc n],
      start + 2 * n)"
proof (induction n)
  case 0
  show ?case
    by (simp add: for_loop_done)
next
  case (Suc n)
  show ?case
    unfolding for_loop_from_1_Suc Suc.IH
    by (simp add: Let_def split_beta generateNormalRandom_pos)
qed

lemma collect_loop_eq:
  fixes f :: "nat \<Rightarrow> 'a"
  shows "for_loop 0 k (\<lambda>sim (simulations, pos). (simulations @ [f pos], pos + d)) ([], 0)
         = (map (\<lambda>sim. f (d * sim)) [0..<k], d * k)"
proof (induction k)
  case 0
  show ?case
    by (simp add: for_loop_done)
next
  case (Suc k)
  have step: "for_loop 0 (Suc k) body s = body k (for_loop 0 k body s)"
    for body :: "nat \<Rightarrow> 'a list \<times> nat \<Rightarrow> 'a list \<times> nat" and s
    by (rule for_loop_Suc) simp
  show ?case
    unfolding step Suc.IH by simp
qed

lemma runSimulations_eq:
  "runSimulations rng n investment expectedReturn vol growth
   = (map (\<lambda>sim. map (pathValue rng investment expectedReturn vol growth (2 * n * sim))
                    [0..<Suc n])
        [0..<numSimulations],
      2 * n * numSimulations)"
proof -
  have "runSimulations rng n investment expectedReturn vol growth
        = for_loop 0 numSimulations
            (\<lambda>sim (simulations, pos).
               (simulations @
                [map (pathValue rng investment expectedReturn vol growth pos) [0..<Suc n]],
                pos + 2 * n))
            ([], 0)"
    unfolding runSimulations_def path_loop_eq by (simp only: Let_def case_prod_conv)
  then show ?thesis
    unfolding collect_loop_eq .
qed

lemma runSimulations_length:
  "length (fst (runSimulations rng years investment expectedReturn vol growth)) = numSimulations"
  by (simp add: runSimulations_eq)

lemma year_column:
  assumes "y \<le> years"
  shows "map (\<lambda>sim. sim ! y) (fst (runSimulations rng years investment expectedReturn vol growth))
         = map (\<lambda>sim. pathValue rng investment expectedReturn vol growth (2 * years * sim) y)
             [0..<numSimulations]"
proof -
  have "map (pathValue rng investment expectedReturn vol growth start) [0..<Suc years] ! y
          = pathValue rng investment expectedReturn vol growth start y" for start
  proof -
    have y: "y < length [0..<Suc years]" using assms by simp
    have "[0..<Suc years] ! y = y"
      using assms by (metis add_0 less_Suc_eq_le nth_upt)
    then show ?thesis
      unfolding nth_map [OF y] by simp
  qed
  then show ?thesis
    by (simp add: runSimulations_eq)
qed

lemma pathValue_NaN:
  "pathValue rng NaN expectedReturn vol growth start (Suc y) = NaN"
  by simp

lemma generateNormalRandom_finite:
  assumes "0 < rng pos" and "rng pos \<le> 1"
  shows "\<exists>r. fst (generateNormalRandom rng (Num m) (Num s) pos) = Num r"
proof -
  have "0 \<le> - 2 * ln (rng pos)"
    using assms by (simp add: mult_nonpos_nonneg)
  then show ?thesis
    using assms(1)
    by (simp add: generateNormalRandom_def Math_random_def Let_def not_less)
qed

lemma pathValue_finite:
  assumes "\<forall>k. 0 < rng k \<and> rng k \<le> 1"
  shows "\<exists>v. pathValue rng (Num a) (Num e) (Num s) (Num g) start y = Num v"
proof (induction y)
  case 0
  show ?case by simp
next
  case (Suc y)
  then obtain v where v: "pathValue rng (Num a) (Num e) (Num s) (Num g) start y = Num v"
    by blast
  obtain r where r: "fst (generateNormalRandom rng (Num (e / 100)) (Num (s / 100))
                            (start + 2 * y)) = Num r"
    using generateNormalRandom_finite assms by blast
  obtain c where c: "Math_pow_number (Num (1 + g)) y = Num c"
    by (cases y) simp_all
  show ?case
    by (simp add: v r c divide_by_def)
qed

subsection \<open>The percentile rows\<close>

lemma runMonteCarloSimulation_eq:
  "runMonteCarloSimulation rng fullYear years investment expectedReturn vol corpus startAge growth
   = map (\<lambda>y.
        \<lparr>MonteCarloProjection.year = fullYear + int y,
           age = startAge + int y,
           p10 = Array_sort (\<lambda>a b. a - b) (map (\<lambda>sim. sim ! y)
                   (fst (runSimulations rng years investment expectedReturn vol growth))) ! 100,
           p25 = Array_sort (\<lambda>a b. a - b) (map (\<lambda>sim. sim ! y)
                   (fst (runSimulations rng years investment expectedReturn vol growth))) ! 250,
           p50 = Array_sort (\<lambda>a b. a - b) (map (\<lambda>sim. sim ! y)
                   (fst (runSimulations rng years investment expectedReturn vol growth))) ! 500,
           p75 = Array_sort (\<lambda>a b. a - b) (map (\<lambda>sim. sim ! y)
                   (fst (runSimulations rng years investment expectedReturn vol growth))) ! 750,
           p90 = Array_sort (\<lambda>a b. a - b) (map (\<lambda>sim. sim ! y)
                   (fst (runSimulations rng years investment expectedReturn vol growth))) ! 900,
           target = corpus,
           deterministic = deterministicValue investment growth expectedReturn y\<rparr>)
       [0..<Suc years]"
  unfolding runMonteCarloSimulation_def Let_def for_loop_push
  by (simp add: numSimulations_def Math_floor_def)

lemma runMonteCarloSimulation_length:
  "length (runMonteCarloSimulation rng fullYear years investment expectedReturn vol corpus
             startAge growth) = Suc years"
  by (simp add: runMonteCarloSimulation_eq)

lemma runMonteCarloSimulation_nth:
  assumes "y \<le> years"
  shows "runMonteCarloSimulation rng fullYear years investment expectedReturn vol corpus startAge
           growth ! y
   = \<lparr>MonteCarloProjection.year = fullYear + int y,
           age = startAge + int y,
           p10 = Array_sort (\<lambda>a b. a - b) (map (\<lambda>sim. sim ! y)
                   (fst (runSimulations rng years investment expectedReturn vol growth))) ! 100,
           p25 = Array_sort (\<lambda>a b. a - b) (map (\<lambda>sim. sim ! y)
                   (fst (runSimulations rng years investment expectedReturn vol growth))) ! 250,
           p50 = Array_sort (\<lambda>a b. a - b) (map (\<lambda>sim. sim ! y)
                   (fst (runSimulations rng years investment expectedReturn vol growth))) ! 500,
           p75 = Array_sort (\<lambda>a b. a - b) (map (\<lambda>sim. sim ! y)
                   (fst (runSimulations rng years investment expectedReturn vol growth))) ! 750,
           p90 = Array_sort (\<lambda>a b. a - b) (map (\<lambda>sim. sim ! y)
                   (fst (runSimulations rng years investment expectedReturn vol growth))) ! 900,
           target = corpus,
           deterministic = deterministicValue investment growth expectedReturn y\<rparr>"
proof -
  have y: "y < length [0..<Suc years]" using assms by simp
  have "[0..<Suc years] ! y = y"
    using assms by (metis add_0 less_Suc_eq_le nth_upt)
  then show ?thesis
    unfolding runMonteCarloSimulation_eq nth_map [OF y] by simp
qed

text \<open>
  Claim C5, as amended: in every row of the Monte Carlo reduction whose year has no \<open>NaN\<close>
  among its 1000 path values, the recorded percentiles are ordered,
  \<open>p10 \<le> p25 \<le> p50 \<le> p75 \<le> p90\<close>. Each is read from that year's values, sorted with the
  comparison \<open>a - b\<close>, at the indices \<open>floor (1000 * p)\<close> = 100, 250, 500, 750 and 900
  (\<open>runMonteCarloSimulation_nth\<close>). The statement is about the values the run has produced,
  whatever the random generator returned and however they were computed.
\<close>

theorem percentiles_ordered:
  assumes "y \<le> years"
    and "\<forall>sim \<in> set (fst (runSimulations rng years investment expectedReturn vol growth)).
           sim ! y \<noteq> NaN"
  shows "p10 (runMonteCarloSimulation rng fullYear years investment expectedReturn vol corpus
                startAge growth ! y)
           \<le> p25 (runMonteCarloSimulation rng fullYear years investment expectedReturn vol corpus
                startAge growth ! y)
       \<and> p25 (runMonteCarloSimulation rng fullYear years investment expectedReturn vol corpus
                startAge growth ! y)
           \<le> p50 (runMonteCarloSimulation rng fullYear years investment expectedReturn vol corpus
                startAge growth ! y)
       \<and> p50 (runMonteCarloSimulation rng fullYear years investment expectedReturn vol corpus
                startAge growth ! y)
           \<le> p75 (runMonteCarloSimulation rng fullYear years investment expectedReturn vol corpus
                startAge growth ! y)
       \<and> p75 (runMonteCarloSimulation rng fullYear years investment expectedReturn vol corpus
                startAge growth ! y)
           \<le> p90 (runMonteCarloSimulation rng fullYear years investment expectedReturn vol corpus
                startAge growth ! y)"
proof -
  let ?column = "map (\<lambda>sim. sim ! y)
                   (fst (runSimulations rng years investment expectedReturn vol growth))"
  have "length ?column = 1000"
    by (simp add: runSimulations_length numSimulations_def)
  moreover have "NaN \<notin> set ?column"
    using assms(2) by auto
  ultimately show ?thesis
    unfolding runMonteCarloSimulation_nth [OF assms(1)]
    using sorted_percentiles [of ?column] by simp
qed

text \<open>
  Year 1 of a one-year simulation on finite inputs, for a generator that always returns 1/2:
  no path value is \<open>NaN\<close>.
\<close>

theorem percentiles_ordered_witness:
  "(1::nat) \<le> 1
   \<and> p10 (runMonteCarloSimulation (\<lambda>k. 1 / 2) 2026 1 (Num 2000) (Num 12) (Num 15) (Num 3000) 24
            (Num 0.02) ! 1)
     \<le> p25 (runMonteCarloSimulation (\<lambda>k. 1 / 2) 2026 1 (Num 2000) (Num 12) (Num 15) (Num 3000) 24
            (Num 0.02) ! 1)
   \<and> p25 (runMonteCarloSimulation (\<lambda>k. 1 / 2) 2026 1 (Num 2000) (Num 12) (Num 15) (Num 3000) 24
            (Num 0.02) ! 1)
     \<le> p50 (runMonteCarloSimulation (\<lambda>k. 1 / 2) 2026 1 (Num 2000) (Num 12) (Num 15) (Num 3000) 24
            (Num 0.02) ! 1)
   \<and> p50 (runMonteCarloSimulation (\<lambda>k. 1 / 2) 2026 1 (Num 2000) (Num 12) (Num 15) (Num 3000) 24
            (Num 0.02) ! 1)
     \<le> p75 (runMonteCarloSimulation (\<lambda>k. 1 / 2) 2026 1 (Num 2000) (Num 12) (Num 15) (Num 3000) 24
            (Num 0.02) ! 1)
   \<and> p75 (runMonteCarloSimulation (\<lambda>k. 1 / 2) 2026 1 (Num 2000) (Num 12) (Num 15) (Num 3000) 24
            (Num 0.02) ! 1)
     \<le> p90 (runMonteCarloSimulation (\<lambda>k. 1 / 2) 2026 1 (Num 2000) (Num 12) (Num 15) (Num 3000) 24
            (Num 0.02) ! 1)"
proof -
  have le: "(1::nat) \<le> 1" by simp
  have draws: "\<forall>k. 0 < (1 / 2 :: real) \<and> (1 / 2 :: real) \<le> 1" by simp
  have finite: "\<forall>sim \<in> set (fst (runSimulations (\<lambda>k. 1 / 2) 1 (Num 2000) (Num 12) (Num 15)
                                       (Num 0.02))).
                  sim ! 1 \<noteq> NaN"
  proof
    fix sim
    assume "sim \<in> set (fst (runSimulations (\<lambda>k. 1 / 2) 1 (Num 2000) (Num 12) (Num 15) (Num 0.02)))"
    then have "sim ! 1 \<in> set (map (\<lambda>sim. sim ! 1)
                 (fst (runSimulations (\<lambda>k. 1 / 2) 1 (Num 2000) (Num 12) (Num 15) (Num 0.02))))"
      by simp
    then obtain s where "sim ! 1 = pathValue (\<lambda>k. 1 / 2) (Num 2000) (Num 12) (Num 15) (Num 0.02)
                                      (2 * 1 * s) 1"
      unfolding year_column [OF le] by auto
    moreover obtain v where "pathValue (\<lambda>k. 1 / 2) (Num 2000) (Num 12) (Num 15) (Num 0.02)
                               (2 * 1 * s) 1 = Num v"
      using pathValue_finite [OF draws] by blast
    ultimately show "sim ! 1 \<noteq> NaN" by simp
  qed
  from percentiles_ordered [OF le finite, of 2026 "Num 3000" 24] le
  show ?thesis by blast
qed

text \<open>
  The claim as it was stated fails where the solver hands over \<open>NaN\<close>, as it does in double
  precision from age 20 to 80 with the Very High Risk vehicle (22%, 35% volatility): every
  path value of every later year is \<open>NaN\<close>, so is every percentile, and \<open>NaN \<le> NaN\<close> is false.
\<close>

theorem percentiles_NaN_counterexample:
  "p10 (runMonteCarloSimulation (\<lambda>k. 1 / 2) 2026 60 NaN (Num 22) (Num 35)
          (Num (52000 * (1 + 0.02) ^ 60 * 0.75 * (1 + 0.03) ^ 60 / 0.04)) 20 (Num 0.02) ! 1) = NaN
   \<and> \<not> p10 (runMonteCarloSimulation (\<lambda>k. 1 / 2) 2026 60 NaN (Num 22) (Num 35)
          (Num (52000 * (1 + 0.02) ^ 60 * 0.75 * (1 + 0.03) ^ 60 / 0.04)) 20 (Num 0.02) ! 1)
       \<le> p25 (runMonteCarloSimulation (\<lambda>k. 1 / 2) 2026 60 NaN (Num 22) (Num 35)
          (Num (52000 * (1 + 0.02) ^ 60 * 0.75 * (1 + 0.03) ^ 60 / 0.04)) 20 (Num 0.02) ! 1)"
proof -
  let ?column = "map (\<lambda>sim. sim ! 1)
                   (fst (runSimulations (\<lambda>k. 1 / 2) 60 NaN (Num 22) (Num 35) (Num 0.02)))"
  have le: "(1::nat) \<le> 60" by simp
  have "?column = map (\<lambda>sim. pathValue (\<lambda>k. 1 / 2) NaN (Num 22) (Num 35) (Num 0.02)
                                (2 * 60 * sim) (Suc 0)) [0..<numSimulations]"
    using year_column [OF le] by simp
  then have column: "length ?column = 1000" "set ?column \<subseteq> {NaN}"
    unfolding pathValue_NaN by (auto simp: numSimulations_def)
  have "Array_sort (\<lambda>a b. a - b) ?column ! 100 = NaN"
    using column by (intro all_NaN_percentiles) simp_all
  then have "p10 (runMonteCarloSimulation (\<lambda>k. 1 / 2) 2026 60 NaN (Num 22) (Num 35)
          (Num (52000 * (1 + 0.02) ^ 60 * 0.75 * (1 + 0.03) ^ 60 / 0.04)) 20 (Num 0.02) ! 1) = NaN"
    unfolding runMonteCarloSimulation_nth [OF le] by simp
  then show ?thesis
    by simp
qed

subsection \<open>The deterministic reference\<close>

lemma Math_pow_number_Num: "Math_pow_number (Num x) k = Num (x ^ k)"
  by (cases k) simp_all

lemma deterministic_loop_eq:
  "for_loop 1 (Suc y)
     (\<lambda>i deterministicValue.
        let yearContribution = Num investment * Math_pow_number (Num 1 + Num growth) (i - 1)
        in (deterministicValue + yearContribution) * (Num 1 + divide_by (Num rate) 100)) (Num 0)
   = Num (accumulatedValue investment growth rate y)"
proof (induction y)
  case 0
  show ?case
    by (simp add: for_loop_done)
next
  case (Suc y)
  then show ?case
    unfolding for_loop_from_1_Suc
    by (simp add: Let_def Math_pow_number_Num divide_by_def)
qed

lemma deterministicValue_eq:
  "deterministicValue (Num investment) (Num growth) (Num rate) y
     = Num (accumulatedValue investment growth rate y)"
proof (cases "y > 0")
  case True
  then show ?thesis
    unfolding deterministicValue_def by (simp only: if_True deterministic_loop_eq)
next
  case False
  then show ?thesis
    by (simp add: deterministicValue_def)
qed

text \<open>
  Claim C9: for every year \<open>y\<close> in \<open>0..yearsUntilRetirement\<close> the deterministic reference value
  of the Monte Carlo row of year \<open>y\<close> equals the \<open>totalValue\<close> of the yearly projection of the
  same year, for the same annual investment, salary growth rate and expected return.
\<close>

theorem deterministic_matches_yearly_totalValue:
  fixes startAge :: int
  assumes "y \<le> years"
  shows "MonteCarloProjection.deterministic
           (runMonteCarloSimulation rng fullYear years (Num annualInvestment) (Num expectedReturn)
              vol corpus startAge (Num growth) ! y)
         = Num (YearlyProjection.totalValue
             (snd (snd (yearlyProjectionsLoop fullYear startAge annualInvestment growth
                          expectedReturn years)) ! y))"
  using assms
  by (simp add: runMonteCarloSimulation_nth deterministicValue_eq yearlyProjections_nth
      yearlyRow_def)

text \<open>
  One year of 2000 invested at 12%: both trajectories hold 2240 in year 1.
\<close>

theorem deterministic_matches_yearly_totalValue_witness:
  "(1::nat) \<le> 1
   \<and> MonteCarloProjection.deterministic
        (runMonteCarloSimulation (\<lambda>k. 1 / 2) 2026 1 (Num 2000) (Num 12) (Num 15) (Num 3000) 24
           (Num 0.02) ! 1) = Num 2240
   \<and> YearlyProjection.totalValue
        (snd (snd (yearlyProjectionsLoop 2026 24 2000 0.02 12 1)) ! 1) = 2240"
  using deterministic_matches_yearly_totalValue
          [of 1 1 "\<lambda>k. 1 / 2" 2026 2000 12 "Num 15" "Num 3000" 24 "0.02"]
  by (simp add: yearlyProjections_nth yearlyRow_def)

section \<open>The full-cycle simulation\<close>

lemma accumulationPhase_eq:
  "accumulationPhase n investment growth preReturns
     = (sequenceAccumulated investment growth preReturns n,
        map (sequenceAccumulated investment growth preReturns) [0..<Suc n])"
proof (induction n)
  case 0
  show ?case
    by (simp add: accumulationPhase_def for_loop_done)
next
  case (Suc n)
  have step: "for_loop 0 (Suc n) body s = body n (for_loop 0 n body s)"
    for body :: "nat \<Rightarrow> real \<times> real list \<Rightarrow> real \<times> real list" and s
    by (rule for_loop_Suc) simp
  from Suc show ?case
    unfolding accumulationPhase_def step
    by (simp add: Let_def Math_pow_nat)
qed

text \<open>
  The first index at which a predicate holds, or a default; one more index is examined.
\<close>

lemma first_index_step:
  fixes P :: "nat \<Rightarrow> bool"
  assumes "n < d"
  shows "(if \<exists>y<Suc n. P y then (LEAST y. P y) else d)
        = (if P n \<and> (if \<exists>y<n. P y then (LEAST y. P y) else d) = d
           then n
           else (if \<exists>y<n. P y then (LEAST y. P y) else d))"
proof (cases "\<exists>y<n. P y")
  case True
  then obtain y where y: "y < n" "P y" by blast
  then have "(LEAST y. P y) \<le> y"
    by (intro Least_le)
  then have "(LEAST y. P y) \<noteq> d"
    using y(1) assms by linarith
  moreover have "\<exists>y<Suc n. P y"
    using True less_Suc_eq by blast
  ultimately show ?thesis
    using True by simp
next
  case False
  show ?thesis
  proof (cases "P n")
    case True
    have "(LEAST y. P y) = n"
    proof (rule Least_equality)
      show "P n" by (rule True)
    next
      fix y assume "P y"
      then show "n \<le> y"
        using False by (meson not_le_imp_less)
    qed
    moreover have "\<exists>y<Suc n. P y"
      using True by blast
    ultimately show ?thesis
      using False True by simp
  next
    case notP: False
    then have none: "\<not> (\<exists>y<Suc n. P y)"
      using False less_Suc_eq by auto
    show ?thesis
      by (simp only: none False notP if_False simp_thms)
  qed
qed

text \<open>
  The invariant of the retirement loop after \<open>n\<close> of its \<open>dur\<close> iterations: the variable
  \<open>survivalYears\<close> still holds \<open>dur\<close> while no value has been \<open>\<le> 0\<close>, and otherwise the first
  index at which one was.
\<close>

lemma retirementLoop_invariant:
  assumes "n \<le> dur"
  shows
  "for_loop 0 n
       (\<lambda>year (portfolioValue, survivalYears, allValues).
          let withdrawal = income * Math_pow (1 + infl) (int year);
              portfolioValue = (portfolioValue - withdrawal) * (1 + postReturns ! year);
              allValues = allValues @ [Math_max 0 portfolioValue]
          in if portfolioValue \<le> 0 \<and> survivalYears = dur
             then (portfolioValue, year, allValues)
             else (portfolioValue, survivalYears, allValues))
       (start, dur, recorded)
   = (sequenceDrawdown income infl postReturns start n,
      (if \<exists>y<n. sequenceDrawdown income infl postReturns start (Suc y) \<le> 0
       then (LEAST y. sequenceDrawdown income infl postReturns start (Suc y) \<le> 0)
       else dur),
      recorded @ map (\<lambda>y. Math_max 0 (sequenceDrawdown income infl postReturns start (Suc y)))
                   [0..<n])"
  using assms
proof (induction n)
  case 0
  show ?case
    by (simp add: for_loop_done)
next
  case (Suc n)
  have step: "for_loop 0 (Suc n) body s = body n (for_loop 0 n body s)"
    for body :: "nat \<Rightarrow> real \<times> nat \<times> real list \<Rightarrow> real \<times> nat \<times> real list" and s
    by (rule for_loop_Suc) simp
  have n: "n \<le> dur" and less: "n < dur"
    using Suc.prems by simp_all
  have next_value: "(sequenceDrawdown income infl postReturns start n
                       - income * Math_pow (1 + infl) (int n)) * (1 + postReturns ! n)
                    = sequenceDrawdown income infl postReturns start (Suc n)"
    by (simp add: Math_pow_nat)
  show ?case
    unfolding step Suc.IH [OF n]
      first_index_step [of n dur "\<lambda>y. sequenceDrawdown income infl postReturns start (Suc y) \<le> 0",
        OF less]
    by (simp only: Let_def case_prod_conv next_value upt_Suc_append [OF le0] map_append
          list.map append_assoc split: if_split) simp
qed

lemma retirementPhase_eq:
  "retirementPhase dur income infl postReturns start
   = (sequenceDrawdown income infl postReturns (fst start) dur,
      (if \<exists>y<dur. sequenceDrawdown income infl postReturns (fst start) (Suc y) \<le> 0
       then (LEAST y. sequenceDrawdown income infl postReturns (fst start) (Suc y) \<le> 0)
       else dur),
      snd start @ map (\<lambda>y. Math_max 0 (sequenceDrawdown income infl postReturns (fst start) (Suc y)))
                      [0..<dur])"
  unfolding retirementPhase_def
  by (rule retirementLoop_invariant) simp

lemma simulateFullCycle_eq:
  "simulateFullCycle years investment growth dur income infl preReturns postReturns
   = \<lparr>FullCycle.finalValue =
        Math_max 0 (sequenceDrawdown income infl postReturns
                      (sequenceAccumulated investment growth preReturns years) dur),
      survivalYears =
        (if \<exists>y<dur. sequenceDrawdown income infl postReturns
                         (sequenceAccumulated investment growth preReturns years) (Suc y) \<le> 0
         then (LEAST y. sequenceDrawdown income infl postReturns
                          (sequenceAccumulated investment growth preReturns years) (Suc y) \<le> 0)
         else dur),
      values' =
        map (sequenceAccumulated investment growth preReturns) [0..<Suc years]
        @ map (\<lambda>y. Math_max 0 (sequenceDrawdown income infl postReturns
                                   (sequenceAccumulated investment growth preReturns years) (Suc y)))
            [0..<dur]\<rparr>"
  unfolding simulateFullCycle_def retirementPhase_eq accumulationPhase_eq
  by (simp only: Let_def case_prod_conv fst_conv snd_conv)

text \<open>
  Claim C4: in the result of the full-cycle simulation, \<open>survivalYears\<close> equals the retirement
  duration if and only if the portfolio value of the drawdown phase never is \<open>\<le> 0\<close>; otherwise
  \<open>survivalYears\<close> is the first index of the drawdown loop at which the value, before the
  floor, is \<open>\<le> 0\<close>. The recorded trajectory is the floored one. The return arrays have the
  lengths the loops read, as those of every scenario have (\<open>length_generateSequence\<close>).
\<close>

theorem survivalYears_characterisation:
  assumes "length preReturns = years" and "length postReturns = dur"
  shows
  "let r = simulateFullCycle years investment growth dur income infl preReturns postReturns;
       raw = (\<lambda>y. sequenceDrawdown income infl postReturns
                     (sequenceAccumulated investment growth preReturns years) (Suc y))
   in (\<forall>y<dur. values' r ! (Suc years + y) = Math_max 0 (raw y))
      \<and> (FullCycle.survivalYears r = dur \<longleftrightarrow> (\<forall>y<dur. 0 < raw y))
      \<and> (FullCycle.survivalYears r \<noteq> dur \<longrightarrow>
           FullCycle.survivalYears r < dur \<and> raw (FullCycle.survivalYears r) \<le> 0
           \<and> (\<forall>y<FullCycle.survivalYears r. 0 < raw y))"
proof -
  define raw where "raw = (\<lambda>y. sequenceDrawdown income infl postReturns
                     (sequenceAccumulated investment growth preReturns years) (Suc y))"
  define r where "r = simulateFullCycle years investment growth dur income infl preReturns postReturns"
  have survival: "FullCycle.survivalYears r
                    = (if \<exists>y<dur. raw y \<le> 0 then (LEAST y. raw y \<le> 0) else dur)"
    unfolding r_def raw_def simulateFullCycle_eq by simp
  have recorded: "values' r ! (Suc years + y) = Math_max 0 (raw y)" if "y < dur" for y
  proof -
    have "values' r = map (sequenceAccumulated investment growth preReturns) [0..<Suc years]
                      @ map (\<lambda>y. Math_max 0 (raw y)) [0..<dur]"
      unfolding r_def raw_def simulateFullCycle_eq by simp
    then have "values' r ! (Suc years + y) = map (\<lambda>y. Math_max 0 (raw y)) [0..<dur] ! y"
      by (simp add: nth_append)
    then show ?thesis
      using that by simp
  qed
  have "(FullCycle.survivalYears r = dur \<longleftrightarrow> (\<forall>y<dur. 0 < raw y))
      \<and> (FullCycle.survivalYears r \<noteq> dur \<longrightarrow>
           FullCycle.survivalYears r < dur \<and> raw (FullCycle.survivalYears r) \<le> 0
           \<and> (\<forall>y<FullCycle.survivalYears r. 0 < raw y))"
  proof (cases "\<exists>y<dur. raw y \<le> 0")
    case True
    then obtain y where y: "y < dur" "raw y \<le> 0" by blast
    have least: "FullCycle.survivalYears r = (LEAST y. raw y \<le> 0)"
      unfolding survival by (rule if_P [OF True])
    have "raw (LEAST y. raw y \<le> 0) \<le> 0"
      using y(2) by (rule LeastI)
    moreover have "(LEAST y. raw y \<le> 0) \<le> y"
      using y(2) by (rule Least_le)
    moreover have "0 < raw z" if "z < (LEAST y. raw y \<le> 0)" for z
      using not_less_Least [OF that] by simp
    ultimately show ?thesis
      unfolding least using y by (auto simp: not_less)
  next
    case False
    have "FullCycle.survivalYears r = dur"
      unfolding survival by (rule if_not_P [OF False])
    with False show ?thesis
      by (auto simp: not_le)
  qed
  with recorded show ?thesis
    unfolding Let_def r_def [symmetric] raw_def [symmetric] by blast
qed

lemma example_fullCycle:
  "simulateFullCycle 1 1000 0 2 600 0 [1 / 10] [0, 0]
     = \<lparr>FullCycle.finalValue = 0, survivalYears = 1, values' = [0, 1100, 500, 0]\<rparr>"
  by (simp add: simulateFullCycle_def accumulationPhase_def retirementPhase_def
      for_loop_step for_loop_done Let_def Math_pow_def Math_max_def)

text \<open>
  One year of 1000 growing by 10%, then two years of withdrawing 600 without return: the
  values are 1100, then 500 and -100, so the portfolio is depleted at index 1 of 2.
\<close>

theorem survivalYears_characterisation_witness:
  "length [1 / 10 :: real] = 1 \<and> length [0, 0 :: real] = 2
   \<and> FullCycle.survivalYears (simulateFullCycle 1 1000 0 2 600 0 [1 / 10] [0, 0]) = 1
   \<and> sequenceDrawdown 600 0 [0, 0] (sequenceAccumulated 1000 0 [1 / 10] 1) (Suc 1) \<le> 0
   \<and> 0 < sequenceDrawdown 600 0 [0, 0] (sequenceAccumulated 1000 0 [1 / 10] 1) (Suc 0)"
proof -
  have pre: "length [1 / 10 :: real] = 1" and post: "length [0, 0 :: real] = 2"
    by simp_all
  have survival: "FullCycle.survivalYears (simulateFullCycle 1 1000 0 2 600 0 [1 / 10] [0, 0]) = 1"
    unfolding example_fullCycle by simp
  from survivalYears_characterisation [OF pre post, of 1000 0 600 0]
  have "(1::nat) \<noteq> 2 \<longrightarrow>
        sequenceDrawdown 600 0 [0, 0] (sequenceAccumulated 1000 0 [1 / 10] 1) (Suc 1) \<le> 0
        \<and> (\<forall>y<1. 0 < sequenceDrawdown 600 0 [0, 0] (sequenceAccumulated 1000 0 [1 / 10] 1) (Suc y))"
    unfolding Let_def survival by blast
  then have "sequenceDrawdown 600 0 [0, 0] (sequenceAccumulated 1000 0 [1 / 10] 1) (Suc 1) \<le> 0
        \<and> 0 < sequenceDrawdown 600 0 [0, 0] (sequenceAccumulated 1000 0 [1 / 10] 1) (Suc 0)"
    by simp
  with pre post survival show ?thesis
    by blast
qed

text \<open>Every scenario of \<open>calculateSequenceRisk\<close> is such a result.\<close>

lemma scenario_of_simulateFullCycle:
  assumes "s \<in> set (fst (calculateSequenceRisk fullYear years investment preRate vol dur income
                           infl growth postRate startAge))"
  shows "SequenceScenario.survivalYears s
           = FullCycle.survivalYears
               (simulateFullCycle years investment growth dur income infl
                  (preRetirement s) (postRetirement s))
         \<and> length (preRetirement s) = years \<and> length (postRetirement s) = dur"
  using assms
  unfolding calculateSequenceRisk_def Let_def fst_conv
  by (auto simp: length_generateSequence)

section \<open>The volatility gate\<close>

lemma computeResults_monteCarloProjections:
  fixes age retAge :: int and replacementRatio :: real
  shows "CalculationResults.monteCarloProjections
           (computeResults fullYear rng age retAge income vehicle replacementRatio withdrawalRate
              annualSalaryGrowth postRetVehicle) \<noteq> None
         \<longleftrightarrow> (\<exists>vol. volatility vehicle = Some vol \<and> 0 < vol)"
  by (cases "volatility vehicle") (auto simp: computeResults_def Let_def split_beta)

lemma computeResults_sequenceScenarios:
  fixes age retAge :: int and replacementRatio :: real
  shows "CalculationResults.sequenceScenarios
           (computeResults fullYear rng age retAge income vehicle replacementRatio withdrawalRate
              annualSalaryGrowth postRetVehicle) \<noteq> None
         \<longleftrightarrow> (\<exists>vol. volatility vehicle = Some vol \<and> 0 < vol)"
  by (cases "volatility vehicle") (auto simp: computeResults_def Let_def split_beta)

lemma calculateRetirement_SetResults:
  assumes "calculateRetirement fullYear rng st = SetResults r"
  obtains vehicle postRetVehicle a ra inc rp wp gp
  where "vehicleAt (FormState.selectedVehicle st) = Some vehicle"
    and "r = computeResults fullYear rng a ra inc vehicle rp wp gp postRetVehicle"
  using assms
  unfolding calculateRetirement_def Let_def
  by (auto split: if_splits option.splits)

lemma vehicleAt_catalog:
  "vehicleAt (Some 0) = Some (investmentVehicles ! 0)"
  "vehicleAt (Some 1) = Some (investmentVehicles ! 1)"
  "vehicleAt (Some 2) = Some (investmentVehicles ! 2)"
  by (simp_all add: vehicleAt_def investmentVehicles_def)

lemma catalog_volatility:
  "volatility (investmentVehicles ! 0) = Some 0"
  "volatility (investmentVehicles ! 1) = Some 0"
  "volatility (investmentVehicles ! 2) = Some 15"
  by (simp_all add: investmentVehicles_def)

text \<open>
  Claim C7: a result of the calculation contains \<open>monteCarloProjections\<close>, and likewise
  \<open>sequenceScenarios\<close>, if and only if the volatility of the chosen pre-retirement vehicle is
  strictly greater than 0; for the Very Low Risk and Low Risk vehicles of the catalog (indices
  0 and 1, volatility 0) both are absent.
\<close>

theorem volatility_gate:
  assumes "calculateRetirement fullYear rng st = SetResults r"
  shows "(CalculationResults.monteCarloProjections r \<noteq> None
            \<longleftrightarrow> (\<exists>vehicle vol. vehicleAt (FormState.selectedVehicle st) = Some vehicle
                   \<and> volatility vehicle = Some vol \<and> 0 < vol))
       \<and> (CalculationResults.sequenceScenarios r \<noteq> None
            \<longleftrightarrow> (\<exists>vehicle vol. vehicleAt (FormState.selectedVehicle st) = Some vehicle
                   \<and> volatility vehicle = Some vol \<and> 0 < vol))
       \<and> (FormState.selectedVehicle st = Some 0 \<or> FormState.selectedVehicle st = Some 1
            \<longrightarrow> CalculationResults.monteCarloProjections r = None
                \<and> CalculationResults.sequenceScenarios r = None)"
proof -
  from assms obtain vehicle postRetVehicle a ra inc rp wp gp
    where vehicle: "vehicleAt (FormState.selectedVehicle st) = Some vehicle"
      and r: "r = computeResults fullYear rng a ra inc vehicle rp wp gp postRetVehicle"
    by (rule calculateRetirement_SetResults)
  have mc: "CalculationResults.monteCarloProjections r \<noteq> None
              \<longleftrightarrow> (\<exists>vol. volatility vehicle = Some vol \<and> 0 < vol)"
    unfolding r by (rule computeResults_monteCarloProjections)
  have ss: "CalculationResults.sequenceScenarios r \<noteq> None
              \<longleftrightarrow> (\<exists>vol. volatility vehicle = Some vol \<and> 0 < vol)"
    unfolding r by (rule computeResults_sequenceScenarios)
  have low: "\<not> (\<exists>vol. volatility vehicle = Some vol \<and> 0 < vol)"
    if "FormState.selectedVehicle st = Some 0 \<or> FormState.selectedVehicle st = Some 1"
  proof -
    from that vehicle
    have "vehicle = investmentVehicles ! 0 \<or> vehicle = investmentVehicles ! 1"
      using vehicleAt_catalog(1,2) by (metis option.inject)
    then have "volatility vehicle = Some 0"
      using catalog_volatility(1,2) by blast
    then show ?thesis by simp
  qed
  show ?thesis
    using mc ss low vehicle by auto
qed

lemma initialForm_results:
  assumes "vehicleAt (Some k) = Some vehicle"
  shows "calculateRetirement fullYear rng (initialForm k)
     = SetResults (computeResults fullYear rng 24 40 52000 vehicle (75 / 100) (4 / 100) (2 / 100)
                     (investmentVehicles ! 0))"
  using assms
  by (simp add: calculateRetirement_def initialForm_def isNaN_def vehicleAt_catalog)

text \<open>
  The initial form with the Very Low Risk vehicle yields a result without the two fields, and
  with the Moderate Risk vehicle (15% volatility) a result with both.
\<close>

theorem volatility_gate_witness:
  "calculateRetirement 2026 (\<lambda>k. 1 / 2) (initialForm 0)
     = SetResults (computeResults 2026 (\<lambda>k. 1 / 2) 24 40 52000 (investmentVehicles ! 0)
                     (75 / 100) (4 / 100) (2 / 100) (investmentVehicles ! 0))
   \<and> CalculationResults.monteCarloProjections
       (computeResults 2026 (\<lambda>k. 1 / 2) 24 40 52000 (investmentVehicles ! 0)
          (75 / 100) (4 / 100) (2 / 100) (investmentVehicles ! 0)) = None
   \<and> CalculationResults.sequenceScenarios
       (computeResults 2026 (\<lambda>k. 1 / 2) 24 40 52000 (investmentVehicles ! 0)
          (75 / 100) (4 / 100) (2 / 100) (investmentVehicles ! 0)) = None
   \<and> calculateRetirement 2026 (\<lambda>k. 1 / 2) (initialForm 2)
     = SetResults (computeResults 2026 (\<lambda>k. 1 / 2) 24 40 52000 (investmentVehicles ! 2)
                     (75 / 100) (4 / 100) (2 / 100) (investmentVehicles ! 0))
   \<and> CalculationResults.monteCarloProjections
       (computeResults 2026 (\<lambda>k. 1 / 2) 24 40 52000 (investmentVehicles ! 2)
          (75 / 100) (4 / 100) (2 / 100) (investmentVehicles ! 0)) \<noteq> None
   \<and> CalculationResults.sequenceScenarios
       (computeResults 2026 (\<lambda>k. 1 / 2) 24 40 52000 (investmentVehicles ! 2)
          (75 / 100) (4 / 100) (2 / 100) (investmentVehicles ! 0)) \<noteq> None"
proof -
  have low: "calculateRetirement 2026 (\<lambda>k. 1 / 2) (initialForm 0)
     = SetResults (computeResults 2026 (\<lambda>k. 1 / 2) 24 40 52000 (investmentVehicles ! 0)
                     (75 / 100) (4 / 100) (2 / 100) (investmentVehicles ! 0))"
    by (rule initialForm_results) (rule vehicleAt_catalog)
  have moderate: "calculateRetirement 2026 (\<lambda>k. 1 / 2) (initialForm 2)
     = SetResults (computeResults 2026 (\<lambda>k. 1 / 2) 24 40 52000 (investmentVehicles ! 2)
                     (75 / 100) (4 / 100) (2 / 100) (investmentVehicles ! 0))"
    by (rule initialForm_results) (rule vehicleAt_catalog)
  have sel: "FormState.selectedVehicle (initialForm 0) = Some 0"
    "FormState.selectedVehicle (initialForm 2) = Some 2"
    by (simp_all add: initialForm_def)
  from volatility_gate [OF low] sel(1)
  have "CalculationResults.monteCarloProjections
       (computeResults 2026 (\<lambda>k. 1 / 2) 24 40 52000 (investmentVehicles ! 0)
          (75 / 100) (4 / 100) (2 / 100) (investmentVehicles ! 0)) = None
   \<and> CalculationResults.sequenceScenarios
       (computeResults 2026 (\<lambda>k. 1 / 2) 24 40 52000 (investmentVehicles ! 0)
          (75 / 100) (4 / 100) (2 / 100) (investmentVehicles ! 0)) = None"
    by blast
  moreover from volatility_gate [OF moderate]
  have "CalculationResults.monteCarloProjections
       (computeResults 2026 (\<lambda>k. 1 / 2) 24 40 52000 (investmentVehicles ! 2)
          (75 / 100) (4 / 100) (2 / 100) (investmentVehicles ! 0)) \<noteq> None
   \<and> CalculationResults.sequenceScenarios
       (computeResults 2026 (\<lambda>k. 1 / 2) 24 40 52000 (investmentVehicles ! 2)
          (75 / 100) (4 / 100) (2 / 100) (investmentVehicles ! 0)) \<noteq> None"
    unfolding sel(2) by (simp add: vehicleAt_catalog catalog_volatility)
  ultimately show ?thesis
    using low moderate by blast
qed

end
